theory Spec2Isabelle
  imports Complex_Main "HOL-Library.Sublist"
begin

section \<open>Mood-based song recommendation: the pure helpers\<close>

text \<open>
  The JavaScript numbers of the program are modelled as exact real numbers: sums,
  quotients and roundings are those of real arithmetic, not of IEEE-754 doubles. The
  feature estimator is modelled a second time with the rounding of doubles written out,
  for the values it returns. Strings are lists of 8-bit characters, and \<open>toLowerCase\<close>
  acts on the ASCII letters only.
\<close>

subsection \<open>Feature triples and the genre preset table\<close>

text \<open>An object \<open>{energy, danceability, valence}\<close>: a feature vector or the mood settings.\<close>

record features =
  energy :: real
  danceability :: real
  valence :: real

type_synonym mood_settings = features

text \<open>An entry of \<open>GENRE_PRESETS\<close>: the three features and the list of keywords.\<close>

record preset = features +
  preset_keywords :: "string list"

definition mk_preset :: "string list \<Rightarrow> real \<Rightarrow> real \<Rightarrow> real \<Rightarrow> preset" where
  "mk_preset kws e d v = \<lparr>energy = e, danceability = d, valence = v, preset_keywords = kws\<rparr>"

definition GENRE_PRESETS :: "preset list" where
  "GENRE_PRESETS =
    [mk_preset [''edm'', ''electro'', ''house'', ''techno'', ''trance'', ''dubstep''] 0.9 0.8 0.6,
     mk_preset [''dance pop'', ''pop'', ''k-pop'', ''electropop''] 0.8 0.85 0.8,
     mk_preset [''hip hop'', ''rap'', ''trap''] 0.8 0.9 0.6,
     mk_preset [''r&b'', ''soul''] 0.6 0.7 0.7,
     mk_preset [''indie'', ''alt'', ''alternative''] 0.55 0.6 0.6,
     mk_preset [''rock'', ''hard rock'', ''punk''] 0.8 0.55 0.55,
     mk_preset [''metal''] 0.95 0.4 0.4,
     mk_preset [''lo-fi'', ''chill'', ''ambient'', ''downtempo''] 0.3 0.4 0.6,
     mk_preset [''acoustic'', ''folk'', ''singer-songwriter''] 0.4 0.45 0.7,
     mk_preset [''classical'', ''soundtrack'', ''score''] 0.35 0.25 0.6]"

definition DEFAULT_FEATURES :: features where
  "DEFAULT_FEATURES = \<lparr>energy = 0.6, danceability = 0.6, valence = 0.6\<rparr>"

subsection \<open>String helpers of the JavaScript library\<close>

text \<open>\<open>String.prototype.toLowerCase\<close>, on ASCII: the letters A to Z move to a to z.\<close>

definition toLowerCase_char :: "char \<Rightarrow> char" where
  "toLowerCase_char c =
     (if 65 \<le> (of_char c :: nat) \<and> (of_char c :: nat) \<le> 90
      then char_of ((of_char c :: nat) + 32) else c)"

definition toLowerCase :: "string \<Rightarrow> string" where
  "toLowerCase s = map toLowerCase_char s"

text \<open>\<open>g.includes(kw)\<close>: the keyword occurs in \<open>g\<close> as a contiguous substring.\<close>

fun str_includes :: "string \<Rightarrow> string \<Rightarrow> bool" where
  "str_includes [] kw = (kw = [])"
| "str_includes (c # cs) kw = (prefix kw (c # cs) \<or> str_includes cs kw)"

subsection \<open>estimateFeaturesFromGenres\<close>

text \<open>\<open>preset.keywords.some((kw) => g.includes(kw))\<close>\<close>

definition hit :: "preset \<Rightarrow> string \<Rightarrow> bool" where
  "hit p g = list_ex (\<lambda>kw. str_includes g kw) (preset_keywords p)"

text \<open>The four running variables of the double loop.\<close>

record totals =
  totalEnergy :: real
  totalDance :: real
  totalValence :: real
  matches :: nat

text \<open>The inner loop over the presets, left by \<open>break\<close> at the first hit.\<close>

fun scanPresets :: "preset list \<Rightarrow> string \<Rightarrow> totals \<Rightarrow> totals" where
  "scanPresets [] g acc = acc"
| "scanPresets (p # ps) g acc =
     (if hit p g
      then \<lparr>totalEnergy = totalEnergy acc + energy p,
            totalDance = totalDance acc + danceability p,
            totalValence = totalValence acc + valence p,
            matches = matches acc + 1\<rparr>
      else scanPresets ps g acc)"

text \<open>The outer loop over the lower-cased genres.\<close>

fun scanGenres :: "string list \<Rightarrow> totals \<Rightarrow> totals" where
  "scanGenres [] acc = acc"
| "scanGenres (g # gs) acc = scanGenres gs (scanPresets GENRE_PRESETS g acc)"

definition zeroTotals :: totals where
  "zeroTotals = \<lparr>totalEnergy = 0, totalDance = 0, totalValence = 0, matches = 0\<rparr>"

text \<open>The argument is \<open>None\<close> when the caller passes \<open>undefined\<close> or \<open>null\<close>.\<close>

definition estimateFeaturesFromGenres :: "string list option \<Rightarrow> features" where
  "estimateFeaturesFromGenres genres =
     (case genres of
        None \<Rightarrow> DEFAULT_FEATURES
      | Some gs \<Rightarrow>
          if length gs = 0 then DEFAULT_FEATURES
          else
            let lowerGenres = map toLowerCase gs;
                acc = scanGenres lowerGenres zeroTotals
            in if matches acc = 0 then DEFAULT_FEATURES
               else \<lparr>energy = totalEnergy acc / real (matches acc),
                     danceability = totalDance acc / real (matches acc),
                     valence = totalValence acc / real (matches acc)\<rparr>)"

subsection \<open>calculateMoodScore\<close>

definition calculateMoodScore :: "features \<Rightarrow> mood_settings \<Rightarrow> real" where
  "calculateMoodScore feats moodSettings =
     (let energyDiff = \<bar>energy feats - energy moodSettings\<bar>;
          danceabilityDiff = \<bar>danceability feats - danceability moodSettings\<bar>;
          valenceDiff = \<bar>valence feats - valence moodSettings\<bar>
      in energyDiff + danceabilityDiff + valenceDiff)"

subsection \<open>The estimator in double precision\<close>

text \<open>
  The value that the estimator returns for a given list depends on how its sums and
  quotients are rounded, so the estimator is modelled a second time with the rounding of
  IEEE 754 binary64 written out. A finite double is the real number it denotes; every
  literal, every \<open>+=\<close> and every \<open>/\<close> is rounded to the nearest double, a tie going to the
  even significand. Results beyond the largest finite double are not modelled: the
  totals stay below the number of genres.
\<close>

text \<open>The number of binary digits of a natural number.\<close>

fun bitlen :: "nat \<Rightarrow> nat" where
  "bitlen n = (if n = 0 then 0 else Suc (bitlen (n div 2)))"

declare bitlen.simps [simp del]

text \<open>Multiplication by a power of two with an integer exponent.\<close>

definition scale2 :: "int \<Rightarrow> real \<Rightarrow> real" where
  "scale2 e x = (if 0 \<le> e then x * 2 ^ nat e else x / 2 ^ nat (- e))"

text \<open>
  The exponent \<open>e\<close> with \<open>2^e \<le> |x| < 2^(e+1)\<close>, for \<open>x\<close> other than zero: from the digits
  of the integer part, or below one from the digits of the integer part of the inverse.
\<close>

definition binade :: "real \<Rightarrow> int" where
  "binade x =
     (let a = \<bar>x\<bar>
      in if 1 \<le> a then int (bitlen (nat \<lfloor>a\<rfloor>)) - 1
         else
           let j = int (bitlen (nat \<lfloor>1 / a\<rfloor>)) - 1
           in if scale2 j a = 1 then - j else - (j + 1))"

text \<open>The nearest integer, a half going to the even neighbour.\<close>

definition round_even :: "real \<Rightarrow> int" where
  "round_even q =
     (let f = \<lfloor>q\<rfloor>; r = q - of_int f
      in if r < 1 / 2 then f
         else if 1 / 2 < r then f + 1
         else if even f then f else f + 1)"

text \<open>
  The nearest double: a significand of 53 binary digits, and the spacing of the smallest
  normal exponent \<open>-1022\<close> for everything below it.
\<close>

definition dbl :: "real \<Rightarrow> real" where
  "dbl x =
     (if x = 0 then 0
      else
        let e = max (binade x) (- 1022)
        in scale2 (e - 52) (of_int (round_even (scale2 (52 - e) x))))"

text \<open>
  The two loops again, with the literal of the preset and the sum rounded. The counter
  \<open>matches\<close> is a whole number below \<open>2^53\<close> (an array has fewer than \<open>2^32\<close> elements) and
  is exact.
\<close>

fun scanPresets_dbl :: "preset list \<Rightarrow> string \<Rightarrow> totals \<Rightarrow> totals" where
  "scanPresets_dbl [] g acc = acc"
| "scanPresets_dbl (p # ps) g acc =
     (if hit p g
      then \<lparr>totalEnergy = dbl (totalEnergy acc + dbl (energy p)),
            totalDance = dbl (totalDance acc + dbl (danceability p)),
            totalValence = dbl (totalValence acc + dbl (valence p)),
            matches = matches acc + 1\<rparr>
      else scanPresets_dbl ps g acc)"

fun scanGenres_dbl :: "string list \<Rightarrow> totals \<Rightarrow> totals" where
  "scanGenres_dbl [] acc = acc"
| "scanGenres_dbl (g # gs) acc = scanGenres_dbl gs (scanPresets_dbl GENRE_PRESETS g acc)"

definition DEFAULT_FEATURES_dbl :: features where
  "DEFAULT_FEATURES_dbl = \<lparr>energy = dbl 0.6, danceability = dbl 0.6, valence = dbl 0.6\<rparr>"

definition estimateFeaturesFromGenres_dbl :: "string list option \<Rightarrow> features" where
  "estimateFeaturesFromGenres_dbl genres =
     (case genres of
        None \<Rightarrow> DEFAULT_FEATURES_dbl
      | Some gs \<Rightarrow>
          if length gs = 0 then DEFAULT_FEATURES_dbl
          else
            let lowerGenres = map toLowerCase gs;
                acc = scanGenres_dbl lowerGenres zeroTotals
            in if matches acc = 0 then DEFAULT_FEATURES_dbl
               else \<lparr>energy = dbl (totalEnergy acc / real (matches acc)),
                     danceability = dbl (totalDance acc / real (matches acc)),
                     valence = dbl (totalValence acc / real (matches acc))\<rparr>)"

section \<open>The objects of the catalog service and of the user interface\<close>

text \<open>
  An entry of \<open>track.artists\<close>. The identifier is optional, as the code reads it with
  \<open>?.id\<close>; a missing name joins as the empty string.
\<close>

record track_artist =
  ta_id :: "string option"
  ta_name :: string

text \<open>\<open>track.album\<close>: its name and the URLs of its images (\<open>images[i].url\<close>).\<close>

record album_info =
  album_name :: string
  album_images :: "string list"

text \<open>
  A track object, also the shape of the seed song. A missing \<open>artists\<close> array is the
  empty list: the code reads it only through \<open>?.\<close> and \<open>&&\<close>, where both behave alike.
\<close>

record track =
  track_id :: string
  track_name :: string
  track_artists :: "track_artist list"
  track_album :: "album_info option"
  track_duration_ms :: "nat option"

text \<open>An artist object of the catalog service; \<open>genres\<close> may be missing.\<close>

record artist_record =
  artist_id :: string
  artist_genres :: "string list option"

text \<open>The object handed to the user interface.\<close>

record recommendation =
  rec_id :: string
  title :: string
  artist :: string
  album :: string
  duration :: string
  imageUrl :: string
  reason :: string

text \<open>\<open>{track, features, moodScore}\<close>\<close>

record scored =
  scored_track :: track
  scored_features :: features
  moodScore :: real

subsection \<open>Numbers as text\<close>

definition digit_char :: "nat \<Rightarrow> char" where
  "digit_char d = ''0123456789'' ! d"

fun show_nat :: "nat \<Rightarrow> string" where
  "show_nat n = (if n < 10 then [digit_char n] else show_nat (n div 10) @ [digit_char (n mod 10)])"

declare show_nat.simps [simp del]

text \<open>An integer inside a template literal.\<close>

definition show_int :: "int \<Rightarrow> string" where
  "show_int i = (if i < 0 then CHR ''-'' # show_nat (nat (- i)) else show_nat (nat i))"

text \<open>\<open>Math.round\<close>: the nearest integer, a half going up.\<close>

definition js_round :: "real \<Rightarrow> int" where
  "js_round x = \<lfloor>x + 1 / 2\<rfloor>"

text \<open>\<open>s.padStart(2, "0")\<close>\<close>

definition padStart2 :: "string \<Rightarrow> string" where
  "padStart2 s = replicate (2 - length s) (CHR ''0'') @ s"

definition formatDuration :: "nat option \<Rightarrow> string" where
  "formatDuration ms =
     (case ms of
        None \<Rightarrow> []
      | Some m \<Rightarrow>
          let totalSeconds = m div 1000;
              minutes = totalSeconds div 60;
              seconds = totalSeconds mod 60
          in show_nat minutes @ '':'' @ padStart2 (show_nat seconds))"

text \<open>\<open>names.join(", ")\<close>\<close>

fun join_comma :: "string list \<Rightarrow> string" where
  "join_comma [] = []"
| "join_comma [x] = x"
| "join_comma (x # y # ys) = x @ '', '' @ join_comma (y # ys)"

section \<open>The mock fallback\<close>

text \<open>The template literal of a mock entry's \<open>reason\<close>.\<close>

definition mockReason :: "int \<Rightarrow> int \<Rightarrow> int \<Rightarrow> string" where
  "mockReason e d v =
     show_int e @ ''% energy match, '' @ show_int d @ ''% danceability match, '' @
     show_int v @ ''% mood match''"

definition mockEntry ::
  "string \<Rightarrow> string \<Rightarrow> string \<Rightarrow> string \<Rightarrow> string \<Rightarrow> string \<Rightarrow> string \<Rightarrow> recommendation" where
  "mockEntry i t a al d u r =
     \<lparr>rec_id = i, title = t, artist = a, album = al, duration = d, imageUrl = u, reason = r\<rparr>"

text \<open>
  \<open>generateMockSongs\<close>. The local \<open>trackName\<close> of the source is computed from the seed
  song and never used, so the seed song does not reach the result.
\<close>

definition generateMockSongs :: "track \<Rightarrow> mood_settings \<Rightarrow> recommendation list" where
  "generateMockSongs seedSong moodSettings =
     (let baseEnergy = energy moodSettings;
          baseValence = valence moodSettings
      in
      [mockEntry ''mock-1'' ''Midnight Dreams'' ''Luna Wave'' ''Nocturnal'' ''3:42''
         ''https://images.unsplash.com/photo-1470225620780-dba8ba36b745?w=400&h=400&fit=crop''
         (mockReason (js_round (baseEnergy * 100))
            (js_round (danceability moodSettings * 100)) (js_round (baseValence * 100))),
       mockEntry ''mock-2'' ''Electric Horizon'' ''Neon Coast'' ''Skywave'' ''4:05''
         ''https://images.unsplash.com/photo-1526170375885-4d8ecf77b99f?w=400&h=400&fit=crop''
         (mockReason (js_round (baseEnergy * 95))
            (js_round (danceability moodSettings * 90)) (js_round (baseValence * 90))),
       mockEntry ''mock-3'' ''Violet Echoes'' ''Astral Bloom'' ''Reflections'' ''2:58''
         ''https://images.unsplash.com/photo-1507875703980-84f7b92febe1?w=400&h=400&fit=crop''
         (mockReason (js_round (baseEnergy * 110))
            (js_round (danceability moodSettings * 95)) (js_round (baseValence * 85))),
       mockEntry ''mock-4'' ''Chrome Streetlights'' ''Echo District'' ''Afterglow'' ''3:21''
         ''https://images.unsplash.com/photo-1507874457470-272b3c8d8ee2?w=400&h=400&fit=crop''
         (mockReason (js_round (baseEnergy * 88))
            (js_round (danceability moodSettings * 92)) (js_round (baseValence * 92))),
       mockEntry ''mock-5'' ''Crystal Pulse'' ''Nova Circuit'' ''Lumina'' ''3:55''
         ''https://images.unsplash.com/photo-1535223289827-42f1e9919769?w=400&h=400&fit=crop''
         (mockReason (js_round (baseEnergy * 102))
            (js_round (danceability moodSettings * 98)) (js_round (baseValence * 98))),
       mockEntry ''mock-6'' ''Silver Haze'' ''Moon District'' ''Nebula Streets'' ''4:11''
         ''https://images.unsplash.com/photo-1526170375885-4d8ecf77b99f?w=400&h=400&fit=crop''
         (mockReason (js_round (baseEnergy * 93))
            (js_round (danceability moodSettings * 87)) (js_round (baseValence * 87))),
       mockEntry ''mock-7'' ''Neon Waves'' ''Digital Sunset'' ''Cyber Dreams'' ''3:33''
         ''https://images.unsplash.com/photo-1493225457124-a3eb161ffa5f?w=400&h=400&fit=crop''
         (mockReason (js_round (baseEnergy * 91))
            (js_round (danceability moodSettings * 89)) (js_round (baseValence * 94))),
       mockEntry ''mock-8'' ''Starlight Echo'' ''Cosmic Drift'' ''Interstellar'' ''4:20''
         ''https://images.unsplash.com/photo-1514525253161-7a46d19cd819?w=400&h=400&fit=crop''
         (mockReason (js_round (baseEnergy * 97))
            (js_round (danceability moodSettings * 85)) (js_round (baseValence * 88))),
       mockEntry ''mock-9'' ''Urban Pulse'' ''City Lights'' ''Metropolitan'' ''3:15''
         ''https://images.unsplash.com/photo-1511379938547-c1f69419868d?w=400&h=400&fit=crop''
         (mockReason (js_round (baseEnergy * 94))
            (js_round (danceability moodSettings * 96)) (js_round (baseValence * 91))),
       mockEntry ''mock-10'' ''Velvet Night'' ''Smooth Operator'' ''After Hours'' ''3:48''
         ''https://images.unsplash.com/photo-1415201364774-f6f0bb35f28f?w=400&h=400&fit=crop''
         (mockReason (js_round (baseEnergy * 86))
            (js_round (danceability moodSettings * 83)) (js_round (baseValence * 89)))])"

section \<open>The catalog service\<close>

text \<open>
  The four requests the program sends. Each carries the bearer token in its headers;
  the token is the same in all of them and is left out.
\<close>

datatype request =
    GetArtist string
  | GetTopTracks string
  | Search string
  | GetArtists "string list"

text \<open>What a \<open>try\<close> block can catch: a rejected request, or a property read on \<open>null\<close>.\<close>

datatype error = RequestFailed | TypeError

text \<open>
  The service is a parameter of the program. Each operation sees the requests sent
  before it and its own argument, and either rejects (\<open>Inl\<close>) or answers with the
  data the code reads from the response:
  \<^item> \<open>getArtist\<close>: \<open>artistRes.data\<close>, \<open>None\<close> when it is missing;
  \<^item> \<open>getTopTracks\<close>: \<open>topTracksRes.data?.tracks || []\<close>;
  \<^item> \<open>searchTracks\<close>: \<open>searchRes.data?.tracks?.items || []\<close>;
  \<^item> \<open>getArtists\<close>: \<open>res.data?.artists || []\<close>, whose entries may be \<open>null\<close>.
\<close>

record network =
  getArtist :: "request list \<Rightarrow> string \<Rightarrow> error + artist_record option"
  getTopTracks :: "request list \<Rightarrow> string \<Rightarrow> error + track list"
  searchTracks :: "request list \<Rightarrow> string \<Rightarrow> error + track list"
  getArtists :: "request list \<Rightarrow> string list \<Rightarrow> error + artist_record option list"

section \<open>generateSongs\<close>

text \<open>A string is truthy when it is present and not empty.\<close>

definition truthy :: "string option \<Rightarrow> bool" where
  "truthy s = (case s of None \<Rightarrow> False | Some v \<Rightarrow> v \<noteq> [])"

text \<open>\<open>track.artists?.[0]?.id\<close> where the code uses it as a condition: a falsy value is \<open>None\<close>.\<close>

definition primaryArtistId :: "track \<Rightarrow> string option" where
  "primaryArtistId t =
     (case track_artists t of
        [] \<Rightarrow> None
      | a # _ \<Rightarrow> if truthy (ta_id a) then ta_id a else None)"

subsection \<open>Collecting the candidates\<close>

text \<open>The mutable state of the collection, and the requests sent so far.\<close>

record collection =
  candidateTracks :: "track list"
  seenTrackIds :: "string set"
  requests :: "request list"

text \<open>\<open>if (!seenTrackIds.has(t.id)) { seenTrackIds.add(t.id); candidateTracks.push(t); }\<close>\<close>

definition addIfUnseen :: "track \<Rightarrow> collection \<Rightarrow> collection" where
  "addIfUnseen t st =
     (if track_id t \<notin> seenTrackIds st
      then st\<lparr>candidateTracks := candidateTracks st @ [t],
              seenTrackIds := insert (track_id t) (seenTrackIds st)\<rparr>
      else st)"

text \<open>The loop over the seed artist's top tracks.\<close>

fun addTopTracks :: "track list \<Rightarrow> collection \<Rightarrow> collection" where
  "addTopTracks [] st = st"
| "addTopTracks (t # ts) st = addTopTracks ts (addIfUnseen t st)"

text \<open>The loop over the hits of one search, left by \<open>break\<close> at 40 candidates.\<close>

fun addFound :: "track list \<Rightarrow> collection \<Rightarrow> collection" where
  "addFound [] st = st"
| "addFound (t # ts) st =
     (let st' = addIfUnseen t st
      in if 40 \<le> length (candidateTracks st') then st' else addFound ts st')"

text \<open>The \<open>try\<close>/\<open>catch\<close> around one genre search: a rejected search only logs a warning.\<close>

definition searchGenre :: "network \<Rightarrow> string \<Rightarrow> collection \<Rightarrow> collection" where
  "searchGenre net g st =
     (case searchTracks net (requests st) g of
        Inl err \<Rightarrow> st\<lparr>requests := requests st @ [Search g]\<rparr>
      | Inr found \<Rightarrow> addFound found (st\<lparr>requests := requests st @ [Search g]\<rparr>))"

text \<open>The loop over \<open>mainGenres\<close>, left by the second \<open>break\<close> at 40 candidates.\<close>

fun searchGenres :: "network \<Rightarrow> string list \<Rightarrow> collection \<Rightarrow> collection" where
  "searchGenres net [] st = st"
| "searchGenres net (g # gs) st =
     (let st' = searchGenre net g st
      in if 40 \<le> length (candidateTracks st') then st' else searchGenres net gs st')"

text \<open>Steps 1 and 2 after the two first responses: the seen set starts with the seed's id.\<close>

definition collectCandidates ::
  "network \<Rightarrow> track \<Rightarrow> string list \<Rightarrow> track list \<Rightarrow> request list \<Rightarrow> collection" where
  "collectCandidates net seedSong seedGenres topTracks lg =
     (let st0 = \<lparr>candidateTracks = [], seenTrackIds = {track_id seedSong}, requests = lg\<rparr>;
          st1 = addTopTracks topTracks st0;
          mainGenres = take 2 seedGenres
      in searchGenres net mainGenres st1)"

subsection \<open>Resolving the artists\<close>

text \<open>\<open>Array.from(artistIdSet)\<close>: the primary artist ids in order of first occurrence.\<close>

fun collectArtistIds :: "track list \<Rightarrow> string list \<Rightarrow> string list" where
  "collectArtistIds [] ids = ids"
| "collectArtistIds (t # ts) ids =
     (case primaryArtistId t of
        None \<Rightarrow> collectArtistIds ts ids
      | Some i \<Rightarrow> collectArtistIds ts (if i \<in> set ids then ids else ids @ [i]))"

text \<open>The slices \<open>artistIds.slice(i, i + 50)\<close> for \<open>i = 0, 50, 100, ...\<close>\<close>

fun batchesOf :: "string list \<Rightarrow> string list list" where
  "batchesOf ids = (if ids = [] then [] else take 50 ids # batchesOf (drop 50 ids))"

declare batchesOf.simps [simp del]

text \<open>
  \<open>for (const a of artists) artistMap[a.id] = a\<close>. A \<open>null\<close> entry throws at \<open>a.id\<close>;
  the \<open>catch\<close> of the batch ends the loop, and the entries stored before it stay.
\<close>

fun storeArtists ::
  "artist_record option list \<Rightarrow> (string \<rightharpoonup> artist_record) \<Rightarrow> (string \<rightharpoonup> artist_record)" where
  "storeArtists [] m = m"
| "storeArtists (None # rest) m = m"
| "storeArtists (Some a # rest) m = storeArtists rest (m(artist_id a \<mapsto> a))"

text \<open>The loop over the batches; a rejected batch only logs a warning.\<close>

fun fetchBatches ::
  "network \<Rightarrow> string list list \<Rightarrow> (string \<rightharpoonup> artist_record) \<times> request list \<Rightarrow>
     (string \<rightharpoonup> artist_record) \<times> request list" where
  "fetchBatches net [] st = st"
| "fetchBatches net (batch # rest) (artistMap, lg) =
     (case getArtists net lg batch of
        Inl err \<Rightarrow> fetchBatches net rest (artistMap, lg @ [GetArtists batch])
      | Inr artists \<Rightarrow>
          fetchBatches net rest (storeArtists artists artistMap, lg @ [GetArtists batch]))"

subsection \<open>Scoring, ranking and formatting\<close>

text \<open>
  \<open>artist = primaryArtistId ? artistMap[primaryArtistId] : null\<close> and
  \<open>genres = artist?.genres || seedGenres\<close>; an array, also an empty one, is truthy.
\<close>

definition genresFor ::
  "(string \<rightharpoonup> artist_record) \<Rightarrow> string list \<Rightarrow> track \<Rightarrow> string list" where
  "genresFor artistMap seedGenres t =
     (let artist = (case primaryArtistId t of None \<Rightarrow> None | Some i \<Rightarrow> artistMap i)
      in case artist of
           None \<Rightarrow> seedGenres
         | Some a \<Rightarrow> (case artist_genres a of None \<Rightarrow> seedGenres | Some gs \<Rightarrow> gs))"

definition scoreTrack ::
  "(string \<rightharpoonup> artist_record) \<Rightarrow> string list \<Rightarrow> mood_settings \<Rightarrow> track \<Rightarrow> scored" where
  "scoreTrack artistMap seedGenres moodSettings t =
     (let genres = genresFor artistMap seedGenres t;
          feats = estimateFeaturesFromGenres (Some genres);
          score = calculateMoodScore feats moodSettings
      in \<lparr>scored_track = t, scored_features = feats, moodScore = score\<rparr>)"

text \<open>
  \<open>candidateTracks.map(...).sort((a, b) => a.moodScore - b.moodScore)\<close>. The sort of
  the language is stable (ECMAScript 2019), as is \<open>sort_key\<close>.
\<close>

definition tracksWithScores ::
  "(string \<rightharpoonup> artist_record) \<Rightarrow> string list \<Rightarrow> mood_settings \<Rightarrow> track list \<Rightarrow> scored list" where
  "tracksWithScores artistMap seedGenres moodSettings cands =
     sort_key moodScore (map (scoreTrack artistMap seedGenres moodSettings) cands)"

text \<open>\<open>tracksWithScores.slice(0, 10)\<close>\<close>

definition topMatches ::
  "(string \<rightharpoonup> artist_record) \<Rightarrow> string list \<Rightarrow> mood_settings \<Rightarrow> track list \<Rightarrow> scored list" where
  "topMatches artistMap seedGenres moodSettings cands =
     take 10 (tracksWithScores artistMap seedGenres moodSettings cands)"

text \<open>\<open>Math.round((1 - Math.abs(feature - target)) * 100)\<close>\<close>

definition matchPercent :: "real \<Rightarrow> real \<Rightarrow> int" where
  "matchPercent feature target = js_round ((1 - \<bar>feature - target\<bar>) * 100)"

definition liveReason :: "int \<Rightarrow> int \<Rightarrow> int \<Rightarrow> string \<Rightarrow> string" where
  "liveReason e d v seedArtistName =
     show_int e @ ''% energy match, '' @ show_int d @ ''% danceability match, '' @
     show_int v @ ''% mood match (estimated from genres similar to '' @ seedArtistName @ '')''"

definition toRecommendation :: "mood_settings \<Rightarrow> string \<Rightarrow> scored \<Rightarrow> recommendation" where
  "toRecommendation moodSettings seedArtistName sc =
     (let t = scored_track sc;
          feats = scored_features sc;
          energyMatch = matchPercent (energy feats) (energy moodSettings);
          danceMatch = matchPercent (danceability feats) (danceability moodSettings);
          valenceMatch = matchPercent (valence feats) (valence moodSettings)
      in \<lparr>rec_id = track_id t,
          title = track_name t,
          artist = join_comma (map ta_name (track_artists t)),
          album = (case track_album t of None \<Rightarrow> [] | Some al \<Rightarrow> album_name al),
          duration = formatDuration (track_duration_ms t),
          imageUrl =
            (case track_album t of
               None \<Rightarrow> []
             | Some al \<Rightarrow> (case album_images al of [] \<Rightarrow> [] | u # _ \<Rightarrow> u)),
          reason = liveReason energyMatch danceMatch valenceMatch seedArtistName\<rparr>)"

text \<open>\<open>seedSong.artists?.[0]?.name || ""\<close>\<close>

definition seedArtistNameOf :: "track \<Rightarrow> string" where
  "seedArtistNameOf seedSong = (case track_artists seedSong of [] \<Rightarrow> [] | a # _ \<Rightarrow> ta_name a)"

text \<open>Steps 3 to 5, for a pool that is not empty.\<close>

definition rankAndFormat ::
  "network \<Rightarrow> track \<Rightarrow> mood_settings \<Rightarrow> string list \<Rightarrow> collection \<Rightarrow>
     recommendation list \<times> request list" where
  "rankAndFormat net seedSong moodSettings seedGenres st =
     (let artistIds = collectArtistIds (candidateTracks st) [];
          (artistMap, lg) = fetchBatches net (batchesOf artistIds) (Map.empty, requests st);
          top = topMatches artistMap seedGenres moodSettings (candidateTracks st)
      in (map (toRecommendation moodSettings (seedArtistNameOf seedSong)) top, lg))"

text \<open>
  The body of the \<open>try\<close> block from the two first requests on. \<open>Promise.all\<close> sends both
  requests and rejects when either does; \<open>seedArtist.genres\<close> throws when the response
  has no data. The result is the error thrown, or the list returned, with the requests sent.
\<close>

definition liveSongs ::
  "network \<Rightarrow> track \<Rightarrow> mood_settings \<Rightarrow> string \<Rightarrow>
     (error + recommendation list) \<times> request list" where
  "liveSongs net seedSong moodSettings seedArtistId =
     (let artistRes = getArtist net [] seedArtistId;
          topTracksRes = getTopTracks net [GetArtist seedArtistId] seedArtistId;
          lg = [GetArtist seedArtistId, GetTopTracks seedArtistId]
      in case artistRes of
           Inl err \<Rightarrow> (Inl err, lg)
         | Inr artistData \<Rightarrow>
            (case topTracksRes of
               Inl err \<Rightarrow> (Inl err, lg)
             | Inr topTracks \<Rightarrow>
                (case artistData of
                   None \<Rightarrow> (Inl TypeError, lg)
                 | Some seedArtist \<Rightarrow>
                    let seedGenres =
                          (case artist_genres seedArtist of None \<Rightarrow> [] | Some gs \<Rightarrow> gs);
                        st = collectCandidates net seedSong seedGenres topTracks lg
                    in if length (candidateTracks st) = 0
                       then (Inr (generateMockSongs seedSong moodSettings), requests st)
                       else (case rankAndFormat net seedSong moodSettings seedGenres st of
                               (songs, lg') \<Rightarrow> (Inr songs, lg')))))"

text \<open>The entry point: the list returned to the caller and the requests sent.\<close>

definition generateSongs ::
  "network \<Rightarrow> track \<Rightarrow> mood_settings \<Rightarrow> string option \<Rightarrow>
     recommendation list \<times> request list" where
  "generateSongs net seedSong moodSettings token =
     (if \<not> truthy token then (generateMockSongs seedSong moodSettings, [])
      else
        (case primaryArtistId seedSong of
           None \<Rightarrow> (generateMockSongs seedSong moodSettings, [])
         | Some seedArtistId \<Rightarrow>
            (case liveSongs net seedSong moodSettings seedArtistId of
               (Inl err, lg) \<Rightarrow> (generateMockSongs seedSong moodSettings, lg)
             | (Inr songs, lg) \<Rightarrow> (songs, lg))))"

section \<open>The specification's reading of the estimator and of the mock list\<close>

text \<open>
  The specification credits, for each genre, the first preset in table order one of whose
  keywords is a substring of the lower-cased genre, and averages the credited triples.
\<close>

definition spec_creditedPreset :: "string \<Rightarrow> preset option" where
  "spec_creditedPreset g =
     List.find (\<lambda>p. list_ex (\<lambda>kw. sublist kw (toLowerCase g)) (preset_keywords p)) GENRE_PRESETS"

definition spec_credited :: "string list \<Rightarrow> preset list" where
  "spec_credited gs = List.map_filter spec_creditedPreset gs"

definition spec_mean :: "preset list \<Rightarrow> features" where
  "spec_mean ps =
     \<lparr>energy = sum_list (map energy ps) / real (length ps),
      danceability = sum_list (map danceability ps) / real (length ps),
      valence = sum_list (map valence ps) / real (length ps)\<rparr>"

text \<open>
  The mean in double precision: the sum of one component over the credited presets,
  added up in list order from zero with every addition rounded, divided by their number.
\<close>

definition spec_sum_dbl :: "(preset \<Rightarrow> real) \<Rightarrow> preset list \<Rightarrow> real" where
  "spec_sum_dbl f ps = foldl (\<lambda>s p. dbl (s + dbl (f p))) 0 ps"

definition spec_mean_dbl :: "preset list \<Rightarrow> features" where
  "spec_mean_dbl ps =
     \<lparr>energy = dbl (spec_sum_dbl energy ps / real (length ps)),
      danceability = dbl (spec_sum_dbl danceability ps / real (length ps)),
      valence = dbl (spec_sum_dbl valence ps / real (length ps))\<rparr>"

text \<open>A triple inside the unit cube.\<close>

definition unit_features :: "features \<Rightarrow> bool" where
  "unit_features f \<longleftrightarrow>
     0 \<le> energy f \<and> energy f \<le> 1 \<and> 0 \<le> danceability f \<and> danceability f \<le> 1 \<and>
     0 \<le> valence f \<and> valence f \<le> 1"

text \<open>
  The mock list as the specification describes it: ten fixed rows, each with its three
  multipliers in percent, and a reason made of the three rounded products.
\<close>

definition spec_mockTable ::
  "(string \<times> string \<times> string \<times> string \<times> string \<times> string \<times> real \<times> real \<times> real) list" where
  "spec_mockTable =
    [(''mock-1'', ''Midnight Dreams'', ''Luna Wave'', ''Nocturnal'', ''3:42'',
      ''https://images.unsplash.com/photo-1470225620780-dba8ba36b745?w=400&h=400&fit=crop'',
      100, 100, 100),
     (''mock-2'', ''Electric Horizon'', ''Neon Coast'', ''Skywave'', ''4:05'',
      ''https://images.unsplash.com/photo-1526170375885-4d8ecf77b99f?w=400&h=400&fit=crop'',
      95, 90, 90),
     (''mock-3'', ''Violet Echoes'', ''Astral Bloom'', ''Reflections'', ''2:58'',
      ''https://images.unsplash.com/photo-1507875703980-84f7b92febe1?w=400&h=400&fit=crop'',
      110, 95, 85),
     (''mock-4'', ''Chrome Streetlights'', ''Echo District'', ''Afterglow'', ''3:21'',
      ''https://images.unsplash.com/photo-1507874457470-272b3c8d8ee2?w=400&h=400&fit=crop'',
      88, 92, 92),
     (''mock-5'', ''Crystal Pulse'', ''Nova Circuit'', ''Lumina'', ''3:55'',
      ''https://images.unsplash.com/photo-1535223289827-42f1e9919769?w=400&h=400&fit=crop'',
      102, 98, 98),
     (''mock-6'', ''Silver Haze'', ''Moon District'', ''Nebula Streets'', ''4:11'',
      ''https://images.unsplash.com/photo-1526170375885-4d8ecf77b99f?w=400&h=400&fit=crop'',
      93, 87, 87),
     (''mock-7'', ''Neon Waves'', ''Digital Sunset'', ''Cyber Dreams'', ''3:33'',
      ''https://images.unsplash.com/photo-1493225457124-a3eb161ffa5f?w=400&h=400&fit=crop'',
      91, 89, 94),
     (''mock-8'', ''Starlight Echo'', ''Cosmic Drift'', ''Interstellar'', ''4:20'',
      ''https://images.unsplash.com/photo-1514525253161-7a46d19cd819?w=400&h=400&fit=crop'',
      97, 85, 88),
     (''mock-9'', ''Urban Pulse'', ''City Lights'', ''Metropolitan'', ''3:15'',
      ''https://images.unsplash.com/photo-1511379938547-c1f69419868d?w=400&h=400&fit=crop'',
      94, 96, 91),
     (''mock-10'', ''Velvet Night'', ''Smooth Operator'', ''After Hours'', ''3:48'',
      ''https://images.unsplash.com/photo-1415201364774-f6f0bb35f28f?w=400&h=400&fit=crop'',
      86, 83, 89)]"

definition spec_mockSong ::
  "mood_settings \<Rightarrow>
   string \<times> string \<times> string \<times> string \<times> string \<times> string \<times> real \<times> real \<times> real \<Rightarrow>
   recommendation" where
  "spec_mockSong m row =
     (case row of (i, t, a, al, d, u, me, md, mv) \<Rightarrow>
        \<lparr>rec_id = i, title = t, artist = a, album = al, duration = d, imageUrl = u,
         reason = mockReason (js_round (energy m * me)) (js_round (danceability m * md))
                    (js_round (valence m * mv))\<rparr>)"

definition spec_mockSongs :: "mood_settings \<Rightarrow> recommendation list" where
  "spec_mockSongs m = map (spec_mockSong m) spec_mockTable"

text \<open>A recommendation with its reason blanked: the part that no input can change.\<close>

definition withoutReason :: "recommendation \<Rightarrow> recommendation" where
  "withoutReason r = r\<lparr>reason := []\<rparr>"

definition mockIds :: "string list" where
  "mockIds = [''mock-1'', ''mock-2'', ''mock-3'', ''mock-4'', ''mock-5'', ''mock-6'', ''mock-7'',
     ''mock-8'', ''mock-9'', ''mock-10'']"

text \<open>
  The genre list that the batch lookups resolved for a track: present when the track has a
  primary artist id, the artist map has a record under it, and the record has genres.
\<close>

definition spec_resolvedGenres ::
  "(string \<rightharpoonup> artist_record) \<Rightarrow> track \<Rightarrow> string list option" where
  "spec_resolvedGenres artistMap t =
     (case primaryArtistId t of
        None \<Rightarrow> None
      | Some i \<Rightarrow> (case artistMap i of None \<Rightarrow> None | Some a \<Rightarrow> artist_genres a))"

text \<open>
  The invariant of the collection: the candidates' ids are pairwise different, the seen
  set holds exactly them and the seed's id, and the seed's id is not a candidate's.
\<close>

definition pool_inv :: "string \<Rightarrow> collection \<Rightarrow> bool" where
  "pool_inv seedId st \<longleftrightarrow>
     distinct (map track_id (candidateTracks st)) \<and>
     seenTrackIds st = insert seedId (set (map track_id (candidateTracks st))) \<and>
     seedId \<notin> set (map track_id (candidateTracks st))"

section \<open>Concrete inputs\<close>

definition ex_mood :: mood_settings where
  "ex_mood = \<lparr>energy = 0.8, danceability = 0.7, valence = 0.6\<rparr>"

text \<open>A track with the given id and one artist with the given id.\<close>

definition ex_track :: "string \<Rightarrow> string \<Rightarrow> track" where
  "ex_track i aid =
     \<lparr>track_id = i, track_name = i, track_artists = [\<lparr>ta_id = Some aid, ta_name = aid\<rparr>],
      track_album = None, track_duration_ms = Some 185000\<rparr>"

definition ex_tracks :: "string \<Rightarrow> string \<Rightarrow> string list \<Rightarrow> track list" where
  "ex_tracks p aid ks = map (\<lambda>k. ex_track (p @ k) aid) ks"

definition ex_20 :: "string list" where
  "ex_20 = [''00'', ''01'', ''02'', ''03'', ''04'', ''05'', ''06'', ''07'', ''08'', ''09'',
     ''10'', ''11'', ''12'', ''13'', ''14'', ''15'', ''16'', ''17'', ''18'', ''19'']"

definition ex_seed :: track where
  "ex_seed = ex_track ''seed'' ''a0''"

text \<open>A seed song that carries the id of the first mock entry.\<close>

definition ex_mock_seed :: track where
  "ex_mock_seed = ex_track ''mock-1'' ''a0''"

text \<open>A seed song without artists.\<close>

definition ex_anonymous_seed :: track where
  "ex_anonymous_seed =
     \<lparr>track_id = ''seed'', track_name = ''seed'', track_artists = [], track_album = None,
      track_duration_ms = None\<rparr>"

definition ex_artist0 :: artist_record where
  "ex_artist0 = \<lparr>artist_id = ''a0'', artist_genres = Some [''techno'', ''house'', ''pop'']\<rparr>"

text \<open>The batch lookup answers every id; only the artist \<open>a1\<close> has genres, an empty list.\<close>

definition ex_resolve :: "string \<Rightarrow> artist_record option" where
  "ex_resolve i =
     Some \<lparr>artist_id = i, artist_genres = (if i = ''a1'' then Some [] else None)\<rparr>"

text \<open>
  A service whose seed artist has three genres, whose top tracks are the seed itself and
  the tracks \<open>top-k\<close>, whose search for \<open>house\<close> is rejected and whose other searches
  answer the tracks \<open>genre-k\<close>.
\<close>

definition ex_network :: "string list \<Rightarrow> string list \<Rightarrow> network" where
  "ex_network n h =
     \<lparr>getArtist = (\<lambda>lg i. Inr (Some ex_artist0)),
      getTopTracks = (\<lambda>lg i. Inr (ex_seed # ex_tracks ''top-'' ''a0'' n)),
      searchTracks = (\<lambda>lg g. if g = ''house'' then Inl RequestFailed
                               else Inr (ex_tracks (g @ ''-'') ''a1'' h)),
      getArtists = (\<lambda>lg ids. Inr (map ex_resolve ids))\<rparr>"

text \<open>A service whose seed artist has no genres and whose top tracks are given.\<close>

definition ex_small :: "track list \<Rightarrow> network" where
  "ex_small tops =
     \<lparr>getArtist = (\<lambda>lg i. Inr (Some \<lparr>artist_id = i, artist_genres = None\<rparr>)),
      getTopTracks = (\<lambda>lg i. Inr tops),
      searchTracks = (\<lambda>lg g. Inl RequestFailed),
      getArtists = (\<lambda>lg ids. Inr (map ex_resolve ids))\<rparr>"

text \<open>A service that rejects every request.\<close>

definition ex_offline :: network where
  "ex_offline =
     \<lparr>getArtist = (\<lambda>lg i. Inl RequestFailed),
      getTopTracks = (\<lambda>lg i. Inl RequestFailed),
      searchTracks = (\<lambda>lg g. Inl RequestFailed),
      getArtists = (\<lambda>lg ids. Inl RequestFailed)\<rparr>"

text \<open>The collection before the first top track is looked at.\<close>

definition ex_start :: collection where
  "ex_start = \<lparr>candidateTracks = [], seenTrackIds = {track_id ex_seed}, requests = []\<rparr>"

text \<open>An artist map that resolves \<open>a1\<close> to a record with an empty genre list.\<close>

definition ex_artistMap :: "string \<rightharpoonup> artist_record" where
  "ex_artistMap = [''a1'' \<mapsto> \<lparr>artist_id = ''a1'', artist_genres = Some []\<rparr>]"

text \<open>A collection that holds one candidate.\<close>

definition ex_one :: collection where
  "ex_one =
     \<lparr>candidateTracks = [ex_track ''t1'' ''a1''],
      seenTrackIds = {''seed'', ''t1''}, requests = []\<rparr>"

section \<open>Properties of the estimator and of the scorer\<close>

lemma str_includes_sublist: "str_includes g kw = sublist kw g"
  by (induction g) (simp_all add: sublist_Cons_right)

lemma hit_sublist: "hit p g = list_ex (\<lambda>kw. sublist kw g) (preset_keywords p)"
  by (simp add: hit_def str_includes_sublist)

lemma scanPresets_find:
  "scanPresets ps g acc =
     (case List.find (\<lambda>p. hit p g) ps of
        None \<Rightarrow> acc
      | Some p \<Rightarrow>
          \<lparr>totalEnergy = totalEnergy acc + energy p,
           totalDance = totalDance acc + danceability p,
           totalValence = totalValence acc + valence p,
           matches = matches acc + 1\<rparr>)"
  by (induction ps) simp_all

lemma scanGenres_credited:
  "scanGenres (map toLowerCase gs) acc =
     \<lparr>totalEnergy = totalEnergy acc + sum_list (map energy (spec_credited gs)),
      totalDance = totalDance acc + sum_list (map danceability (spec_credited gs)),
      totalValence = totalValence acc + sum_list (map valence (spec_credited gs)),
      matches = matches acc + length (spec_credited gs)\<rparr>"
proof (induction gs arbitrary: acc)
  case Nil
  show ?case by (simp add: spec_credited_def)
next
  case (Cons g gs)
  show ?case
  proof (cases "spec_creditedPreset g")
    case None
    then have "scanPresets GENRE_PRESETS (toLowerCase g) acc = acc"
      by (simp add: scanPresets_find spec_creditedPreset_def hit_sublist)
    moreover have "spec_credited (g # gs) = spec_credited gs"
      using None by (simp add: spec_credited_def)
    ultimately show ?thesis by (simp add: Cons.IH)
  next
    case (Some p)
    then have "scanPresets GENRE_PRESETS (toLowerCase g) acc =
        \<lparr>totalEnergy = totalEnergy acc + energy p,
         totalDance = totalDance acc + danceability p,
         totalValence = totalValence acc + valence p,
         matches = matches acc + 1\<rparr>"
      by (simp add: scanPresets_find spec_creditedPreset_def hit_sublist)
    moreover have "spec_credited (g # gs) = p # spec_credited gs"
      using Some by (simp add: spec_credited_def)
    ultimately show ?thesis by (simp add: Cons.IH)
  qed
qed

lemma estimate_spec:
  "estimateFeaturesFromGenres genres =
     (case genres of
        None \<Rightarrow> DEFAULT_FEATURES
      | Some gs \<Rightarrow>
          if spec_credited gs = [] then DEFAULT_FEATURES else spec_mean (spec_credited gs))"
proof (cases genres)
  case None
  then show ?thesis by (simp add: estimateFeaturesFromGenres_def)
next
  case (Some gs)
  show ?thesis
  proof (cases "gs = []")
    case True
    with Some show ?thesis by (simp add: estimateFeaturesFromGenres_def spec_credited_def)
  next
    case False
    with Some show ?thesis
      by (simp add: estimateFeaturesFromGenres_def scanGenres_credited zeroTotals_def
          spec_mean_def Let_def)
  qed
qed

lemma preset_bounds:
  "p \<in> set GENRE_PRESETS \<Longrightarrow>
     0 \<le> energy p \<and> energy p \<le> 1 \<and> 0 \<le> danceability p \<and> danceability p \<le> 1 \<and>
     0 \<le> valence p \<and> valence p \<le> 1"
  by (auto simp add: GENRE_PRESETS_def mk_preset_def)

lemma find_in_set: "List.find P xs = Some x \<Longrightarrow> x \<in> set xs"
  by (induction xs) (auto split: if_splits)

lemma spec_credited_presets: "p \<in> set (spec_credited gs) \<Longrightarrow> p \<in> set GENRE_PRESETS"
proof (induction gs)
  case Nil
  then show ?case by (simp add: spec_credited_def)
next
  case (Cons g gs)
  then show ?case
    by (cases "spec_creditedPreset g")
       (auto simp add: spec_credited_def spec_creditedPreset_def dest: find_in_set)
qed

lemma sum_list_unit_bounds:
  fixes f :: "'a \<Rightarrow> real"
  assumes "\<And>x. x \<in> set xs \<Longrightarrow> 0 \<le> f x \<and> f x \<le> 1"
  shows "0 \<le> sum_list (map f xs) \<and> sum_list (map f xs) \<le> real (length xs)"
  using assms by (induction xs) (simp_all add: add_mono)

lemma mean_unit_bounds:
  fixes f :: "'a \<Rightarrow> real"
  assumes "\<And>x. x \<in> set xs \<Longrightarrow> 0 \<le> f x \<and> f x \<le> 1" and "xs \<noteq> []"
  shows "0 \<le> sum_list (map f xs) / real (length xs) \<and>
         sum_list (map f xs) / real (length xs) \<le> 1"
proof -
  have "0 < real (length xs)" using assms(2) by simp
  with sum_list_unit_bounds [of xs f] assms(1) show ?thesis
    by (simp add: divide_le_eq)
qed

lemma estimate_unit: "unit_features (estimateFeaturesFromGenres genres)"
proof (cases genres)
  case None
  then show ?thesis by (simp add: estimate_spec unit_features_def DEFAULT_FEATURES_def)
next
  case (Some gs)
  show ?thesis
  proof (cases "spec_credited gs = []")
    case True
    with Some show ?thesis by (simp add: estimate_spec unit_features_def DEFAULT_FEATURES_def)
  next
    case False
    have b: "\<And>p. p \<in> set (spec_credited gs) \<Longrightarrow> p \<in> set GENRE_PRESETS"
      by (rule spec_credited_presets)
    have "0 \<le> sum_list (map energy (spec_credited gs)) / real (length (spec_credited gs)) \<and>
          sum_list (map energy (spec_credited gs)) / real (length (spec_credited gs)) \<le> 1"
      by (rule mean_unit_bounds) (use b preset_bounds False in auto)
    moreover
    have "0 \<le> sum_list (map danceability (spec_credited gs)) / real (length (spec_credited gs)) \<and>
          sum_list (map danceability (spec_credited gs)) / real (length (spec_credited gs)) \<le> 1"
      by (rule mean_unit_bounds) (use b preset_bounds False in auto)
    moreover
    have "0 \<le> sum_list (map valence (spec_credited gs)) / real (length (spec_credited gs)) \<and>
          sum_list (map valence (spec_credited gs)) / real (length (spec_credited gs)) \<le> 1"
      by (rule mean_unit_bounds) (use b preset_bounds False in auto)
    ultimately show ?thesis
      using Some False by (simp add: estimate_spec unit_features_def spec_mean_def)
  qed
qed

text \<open>
  C7: for every list of genre strings, also an absent one, each of the three components
  of the estimated triple lies between 0 and 1.
\<close>

theorem estimateFeatures_in_unit_cube:
  "0 \<le> energy (estimateFeaturesFromGenres genres) \<and>
   energy (estimateFeaturesFromGenres genres) \<le> 1 \<and>
   0 \<le> danceability (estimateFeaturesFromGenres genres) \<and>
   danceability (estimateFeaturesFromGenres genres) \<le> 1 \<and>
   0 \<le> valence (estimateFeaturesFromGenres genres) \<and>
   valence (estimateFeaturesFromGenres genres) \<le> 1"
  using estimate_unit [of genres] by (simp add: unit_features_def)

theorem estimateFeatures_in_unit_cube_witness:
  "0 \<le> energy (estimateFeaturesFromGenres (Some [''metal'', ''lo-fi''])) \<and>
   energy (estimateFeaturesFromGenres (Some [''metal'', ''lo-fi''])) \<le> 1 \<and>
   0 \<le> danceability (estimateFeaturesFromGenres (Some [''metal'', ''lo-fi''])) \<and>
   danceability (estimateFeaturesFromGenres (Some [''metal'', ''lo-fi''])) \<le> 1 \<and>
   0 \<le> valence (estimateFeaturesFromGenres (Some [''metal'', ''lo-fi''])) \<and>
   valence (estimateFeaturesFromGenres (Some [''metal'', ''lo-fi''])) \<le> 1"
  by (rule estimateFeatures_in_unit_cube)

lemma abs_diff_unit:
  fixes a b :: real
  shows "0 \<le> a \<Longrightarrow> a \<le> 1 \<Longrightarrow> 0 \<le> b \<Longrightarrow> b \<le> 1 \<Longrightarrow> \<bar>a - b\<bar> \<le> 1"
  by linarith

text \<open>
  C6: \<open>calculateMoodScore\<close> returns the sum of the three absolute differences; the sum
  is zero exactly when the two triples are equal; and when both triples lie in the unit
  cube, every difference lies between 0 and 1 and the score between 0 and 3.
\<close>

theorem calculateMoodScore_l1:
  fixes f m :: features
  shows
  "calculateMoodScore f m =
     \<bar>energy f - energy m\<bar> + \<bar>danceability f - danceability m\<bar> + \<bar>valence f - valence m\<bar>
   \<and> (calculateMoodScore f m = 0 \<longleftrightarrow> f = m)
   \<and> (unit_features f \<and> unit_features m \<longrightarrow>
        0 \<le> \<bar>energy f - energy m\<bar> \<and> \<bar>energy f - energy m\<bar> \<le> 1 \<and>
        0 \<le> \<bar>danceability f - danceability m\<bar> \<and> \<bar>danceability f - danceability m\<bar> \<le> 1 \<and>
        0 \<le> \<bar>valence f - valence m\<bar> \<and> \<bar>valence f - valence m\<bar> \<le> 1 \<and>
        0 \<le> calculateMoodScore f m \<and> calculateMoodScore f m \<le> 3)"
proof (intro conjI impI)
  show l1: "calculateMoodScore f m =
     \<bar>energy f - energy m\<bar> + \<bar>danceability f - danceability m\<bar> + \<bar>valence f - valence m\<bar>"
    by (simp add: calculateMoodScore_def)
  show "calculateMoodScore f m = 0 \<longleftrightarrow> f = m"
    by (cases f, cases m) (auto simp add: calculateMoodScore_def)
  assume u: "unit_features f \<and> unit_features m"
  then show e: "\<bar>energy f - energy m\<bar> \<le> 1"
    and d: "\<bar>danceability f - danceability m\<bar> \<le> 1"
    and v: "\<bar>valence f - valence m\<bar> \<le> 1"
    by (simp_all add: unit_features_def abs_diff_unit)
  show "0 \<le> \<bar>energy f - energy m\<bar>" "0 \<le> \<bar>danceability f - danceability m\<bar>"
    "0 \<le> \<bar>valence f - valence m\<bar>"
    by simp_all
  show "0 \<le> calculateMoodScore f m" by (simp add: l1)
  show "calculateMoodScore f m \<le> 3" using e d v by (simp add: l1)
qed

theorem calculateMoodScore_l1_witness:
  "unit_features \<lparr>energy = 0.9, danceability = 0.8, valence = 0.6\<rparr> \<and>
   unit_features \<lparr>energy = 0.5, danceability = 1, valence = 0\<rparr> \<and>
   calculateMoodScore \<lparr>energy = 0.9, danceability = 0.8, valence = 0.6\<rparr>
     \<lparr>energy = 0.5, danceability = 1, valence = 0\<rparr> = 1.2 \<and>
   calculateMoodScore \<lparr>energy = 0.9, danceability = 0.8, valence = 0.6\<rparr>
     \<lparr>energy = 0.5, danceability = 1, valence = 0\<rparr> \<le> 3"
  using calculateMoodScore_l1 [of "\<lparr>energy = 0.9, danceability = 0.8, valence = 0.6\<rparr>"
      "\<lparr>energy = 0.5, danceability = 1, valence = 0\<rparr>"]
  by (simp add: unit_features_def)

section \<open>Properties of the estimator in double precision\<close>

subsection \<open>The rounding is to a nearest double\<close>

lemma bitlen_bounds: "0 < n \<Longrightarrow> 2 ^ (bitlen n - 1) \<le> n \<and> n < 2 ^ bitlen n"
proof (induction n rule: bitlen.induct)
  case (1 n)
  show ?case
  proof (cases "n div 2 = 0")
    case True
    with 1(2) have "n = 1" by (simp add: div_eq_0_iff) 
    then show ?thesis by (simp add: bitlen.simps)
  next
    case False
    then have pos: "0 < n div 2" by simp
    from 1(1) [OF _ pos] 1(2)
    have ih: "2 ^ (bitlen (n div 2) - 1) \<le> n div 2" "n div 2 < 2 ^ bitlen (n div 2)"
      by simp_all
    have b: "bitlen n = Suc (bitlen (n div 2))"
      using 1(2) by (simp add: bitlen.simps)
    have bp: "0 < bitlen (n div 2)"
      using pos by (simp add: bitlen.simps)
    then have "(2::nat) ^ bitlen (n div 2) = 2 * 2 ^ (bitlen (n div 2) - 1)"
      by (cases "bitlen (n div 2)") simp_all
    with ih(1) have "2 ^ bitlen (n div 2) \<le> n" by simp
    moreover have "n < 2 * 2 ^ bitlen (n div 2)" using ih(2) by simp
    ultimately show ?thesis by (simp add: b)
  qed
qed

lemma scale2_powr: "scale2 e x = x * 2 powr (real_of_int e)"
proof (cases "0 \<le> e")
  case True
  then have "(2::real) ^ nat e = 2 powr (real_of_int e)"
    by (simp add: powr_realpow [symmetric])
  with True show ?thesis by (simp add: scale2_def)
next
  case False
  then have "(2::real) ^ nat (- e) = 2 powr (- real_of_int e)"
    by (simp add: powr_realpow [symmetric])
  with False show ?thesis by (simp add: scale2_def powr_minus field_simps)
qed

lemma round_even_near: "\<bar>of_int (round_even q) - q\<bar> \<le> 1 / 2"
  unfolding round_even_def Let_def by (auto; linarith)

lemma powr_int_nat: "2 powr (real_of_int (int n)) = (2::real) ^ n"
  by (simp add: powr_realpow)

lemma powr_int_neg_nat: "2 powr (real_of_int (- int n)) = 1 / (2::real) ^ n"
  by (simp add: powr_minus powr_realpow field_simps)

lemma binade_bounds:
  assumes "x \<noteq> 0"
  shows "2 powr (real_of_int (binade x)) \<le> \<bar>x\<bar> \<and> \<bar>x\<bar> < 2 powr (real_of_int (binade x + 1))"
proof (cases "1 \<le> \<bar>x\<bar>")
  case True
  define n where "n = nat \<lfloor>\<bar>x\<bar>\<rfloor>"
  have npos: "0 < n" using True by (simp add: n_def)
  have bl: "0 < bitlen n" using npos by (simp add: bitlen.simps)
  then have e: "binade x = int (bitlen n - 1)"
    using True by (simp add: binade_def n_def of_nat_diff)
  have e1: "binade x + 1 = int (bitlen n)"
    using bl by (simp add: e)
  from bitlen_bounds [OF npos] have lo: "2 ^ (bitlen n - 1) \<le> n" and hi: "n < 2 ^ bitlen n"
    by simp_all
  have nx: "real n \<le> \<bar>x\<bar>" "\<bar>x\<bar> < real n + 1"
    using True by (simp_all add: n_def)
  have r1: "(2::real) ^ (bitlen n - 1) \<le> real n"
    using of_nat_mono [OF lo, where 'a = real] by simp
  have "n + 1 \<le> 2 ^ bitlen n" using hi by simp
  then have r2: "real n + 1 \<le> (2::real) ^ bitlen n"
    using of_nat_mono [of "n + 1" "2 ^ bitlen n", where 'a = real] by simp
  have "2 powr (real_of_int (binade x)) \<le> \<bar>x\<bar>"
    unfolding e powr_int_nat using r1 nx(1) by (rule order_trans)
  moreover have "\<bar>x\<bar> < 2 powr (real_of_int (binade x + 1))"
    unfolding e1 powr_int_nat using nx(2) r2 by (rule less_le_trans)
  ultimately show ?thesis by simp
next
  case False
  define a where "a = \<bar>x\<bar>"
  have a: "0 < a" "a < 1" using assms False by (simp_all add: a_def)
  define k where "k = nat \<lfloor>1 / a\<rfloor>"
  have "1 < 1 / a" using a by simp
  then have kpos: "0 < k" by (simp add: k_def)
  define j where "j = bitlen k - 1"
  have bl: "0 < bitlen k" using kpos by (simp add: bitlen.simps)
  from bitlen_bounds [OF kpos] have lo: "2 ^ j \<le> k" and hi: "k < 2 ^ Suc j"
    using bl by (simp_all add: j_def)
  have kx: "real k \<le> 1 / a" "1 / a < real k + 1"
    using a by (simp_all add: k_def)
  have r1: "(2::real) ^ j \<le> real k"
    using of_nat_mono [OF lo, where 'a = real] by simp
  from r1 kx(1) have "2 ^ j \<le> 1 / a" by (rule order_trans)
  then have up: "a \<le> 1 / 2 ^ j" using a by (simp add: field_simps)
  have "k + 1 \<le> 2 ^ Suc j" using hi by simp
  then have r2: "real k + 1 \<le> (2::real) ^ Suc j"
    using of_nat_mono [of "k + 1" "2 ^ Suc j", where 'a = real] by simp
  from kx(2) r2 have "1 / a < 2 ^ Suc j" by (rule less_le_trans)
  then have dn: "1 / 2 ^ Suc j < a" using a by (simp add: field_simps)
  have jj: "int (bitlen k) - 1 = int j" using bl by (simp add: j_def)
  have sc: "scale2 (int j) a = a * 2 ^ j" by (simp add: scale2_def)
  show ?thesis
  proof (cases "a * 2 ^ j = 1")
    case True
    then have e: "binade x = - int j"
      using False by (simp add: binade_def a_def [symmetric] k_def [symmetric] jj sc Let_def)
    have aj: "a = 1 / 2 ^ j" using True by (simp add: field_simps)
    have "2 powr (real_of_int (binade x)) \<le> \<bar>x\<bar>"
      unfolding e powr_int_neg_nat a_def [symmetric] using aj by simp
    moreover have "\<bar>x\<bar> < 2 powr (real_of_int (binade x + 1))"
    proof -
      have "2 powr (real_of_int (binade x + 1)) = 2 powr 1 * 2 powr (real_of_int (- int j))"
        unfolding powr_add [symmetric] by (simp add: e)
      then have "2 powr (real_of_int (binade x + 1)) = 2 * 2 powr (real_of_int (- int j))"
        by simp
      then have "2 powr (real_of_int (binade x + 1)) = 2 * a"
        unfolding powr_int_neg_nat using aj by simp
      with a show ?thesis by (simp add: a_def)
    qed
    ultimately show ?thesis by simp
  next
    case neq: False
    then have e: "binade x = - int (Suc j)"
      using False by (simp add: binade_def a_def [symmetric] k_def [symmetric] jj sc Let_def)
    have e1: "binade x + 1 = - int j" by (simp add: e)
    have "a \<noteq> 1 / 2 ^ j" using neq by (simp add: field_simps)
    with up have up': "a < 1 / 2 ^ j" by simp
    have "2 powr (real_of_int (binade x)) \<le> \<bar>x\<bar>"
      unfolding e powr_int_neg_nat a_def [symmetric] using dn by simp
    moreover have "\<bar>x\<bar> < 2 powr (real_of_int (binade x + 1))"
      unfolding e1 powr_int_neg_nat a_def [symmetric] using up' by simp
    ultimately show ?thesis by simp
  qed
qed

lemma dbl_near:
  assumes "x \<noteq> 0"
  shows "\<bar>dbl x - x\<bar> \<le> 2 powr (real_of_int (max (binade x) (- 1022) - 53))"
proof -
  define e where "e = max (binade x) (- 1022)"
  define q where "q = x * 2 powr (real_of_int (52 - e))"
  have d: "dbl x = of_int (round_even q) * 2 powr (real_of_int (e - 52))"
    using assms by (simp add: dbl_def Let_def scale2_powr e_def q_def)
  have "q * 2 powr (real_of_int (e - 52)) = x"
    by (simp add: q_def powr_add [symmetric])
  then have "dbl x - x = (of_int (round_even q) - q) * 2 powr (real_of_int (e - 52))"
    by (simp add: d algebra_simps)
  then have "\<bar>dbl x - x\<bar> = \<bar>of_int (round_even q) - q\<bar> * 2 powr (real_of_int (e - 52))"
    by (simp add: abs_mult)
  also have "\<dots> \<le> 1 / 2 * 2 powr (real_of_int (e - 52))"
    by (intro mult_right_mono round_even_near) simp
  also have "\<dots> = 2 powr (real_of_int (e - 53))"
    by (simp add: powr_diff)
  finally show ?thesis by (simp add: e_def)
qed

lemma round_even_mono_bound:
  assumes "\<bar>q\<bar> < 2 ^ 53"
  shows "\<bar>round_even q\<bar> \<le> 2 ^ 53"
proof -
  have "\<bar>of_int (round_even q) - q\<bar> \<le> 1 / 2" by (rule round_even_near)
  with assms have "\<bar>real_of_int (round_even q)\<bar> < 2 ^ 53 + 1" by linarith
  then have "real_of_int \<bar>round_even q\<bar> < real_of_int (2 ^ 53 + 1)" by simp
  then have "\<bar>round_even q\<bar> < 2 ^ 53 + 1" by (simp only: of_int_less_iff)
  then show ?thesis by simp
qed

lemma dbl_representable:
  assumes "x \<noteq> 0"
  shows "\<exists>n. dbl x = of_int n * 2 powr (real_of_int (max (binade x) (- 1022) - 52)) \<and>
           \<bar>n\<bar> \<le> 2 ^ 53"
proof -
  define e where "e = max (binade x) (- 1022)"
  define q where "q = x * 2 powr (real_of_int (52 - e))"
  have d: "dbl x = of_int (round_even q) * 2 powr (real_of_int (e - 52))"
    using assms by (simp add: dbl_def Let_def scale2_powr e_def q_def)
  have "\<bar>x\<bar> < 2 powr (real_of_int (binade x + 1))"
    using binade_bounds [OF assms] by simp
  also have "\<dots> \<le> 2 powr (real_of_int (e + 1))"
    by (simp add: e_def)
  finally have "\<bar>x\<bar> * 2 powr (real_of_int (52 - e)) <
      2 powr (real_of_int (e + 1)) * 2 powr (real_of_int (52 - e))"
    by (simp add: mult_strict_right_mono)
  also have "\<dots> = 2 powr 53"
    unfolding powr_add [symmetric] by simp
  also have "\<dots> = 2 ^ 53"
    using powr_int_nat [of 53] by simp
  finally have "\<bar>q\<bar> < 2 ^ 53"
    by (simp add: q_def abs_mult)
  then have "\<bar>round_even q\<bar> \<le> 2 ^ 53" by (rule round_even_mono_bound)
  with d show ?thesis unfolding e_def by blast
qed

subsection \<open>The estimator follows the first hits\<close>

lemma scanPresets_dbl_find:
  "scanPresets_dbl ps g acc =
     (case List.find (\<lambda>p. hit p g) ps of
        None \<Rightarrow> acc
      | Some p \<Rightarrow>
          \<lparr>totalEnergy = dbl (totalEnergy acc + dbl (energy p)),
           totalDance = dbl (totalDance acc + dbl (danceability p)),
           totalValence = dbl (totalValence acc + dbl (valence p)),
           matches = matches acc + 1\<rparr>)"
  by (induction ps) simp_all

lemma scanGenres_dbl_credited:
  "scanGenres_dbl (map toLowerCase gs) acc =
     \<lparr>totalEnergy =
        foldl (\<lambda>s p. dbl (s + dbl (energy p))) (totalEnergy acc) (spec_credited gs),
      totalDance =
        foldl (\<lambda>s p. dbl (s + dbl (danceability p))) (totalDance acc) (spec_credited gs),
      totalValence =
        foldl (\<lambda>s p. dbl (s + dbl (valence p))) (totalValence acc) (spec_credited gs),
      matches = matches acc + length (spec_credited gs)\<rparr>"
proof (induction gs arbitrary: acc)
  case Nil
  show ?case by (simp add: spec_credited_def)
next
  case (Cons g gs)
  show ?case
  proof (cases "spec_creditedPreset g")
    case None
    then have "scanPresets_dbl GENRE_PRESETS (toLowerCase g) acc = acc"
      by (simp add: scanPresets_dbl_find spec_creditedPreset_def hit_sublist)
    moreover have "spec_credited (g # gs) = spec_credited gs"
      using None by (simp add: spec_credited_def)
    ultimately show ?thesis by (simp add: Cons.IH)
  next
    case (Some p)
    then have "scanPresets_dbl GENRE_PRESETS (toLowerCase g) acc =
        \<lparr>totalEnergy = dbl (totalEnergy acc + dbl (energy p)),
         totalDance = dbl (totalDance acc + dbl (danceability p)),
         totalValence = dbl (totalValence acc + dbl (valence p)),
         matches = matches acc + 1\<rparr>"
      by (simp add: scanPresets_dbl_find spec_creditedPreset_def hit_sublist)
    moreover have "spec_credited (g # gs) = p # spec_credited gs"
      using Some by (simp add: spec_credited_def)
    ultimately show ?thesis by (simp add: Cons.IH)
  qed
qed

lemma estimate_dbl_spec:
  "estimateFeaturesFromGenres_dbl genres =
     (case genres of
        None \<Rightarrow> DEFAULT_FEATURES_dbl
      | Some gs \<Rightarrow>
          if spec_credited gs = [] then DEFAULT_FEATURES_dbl
          else spec_mean_dbl (spec_credited gs))"
proof (cases genres)
  case None
  then show ?thesis by (simp add: estimateFeaturesFromGenres_dbl_def)
next
  case (Some gs)
  show ?thesis
  proof (cases "gs = []")
    case True
    with Some show ?thesis
      by (simp add: estimateFeaturesFromGenres_dbl_def spec_credited_def)
  next
    case False
    with Some show ?thesis
      by (simp add: estimateFeaturesFromGenres_dbl_def scanGenres_dbl_credited zeroTotals_def
          spec_mean_dbl_def spec_sum_dbl_def Let_def)
  qed
qed

lemmas dbl_eval = dbl_def binade_def round_even_def scale2_def bitlen.simps Let_def

lemma credited_techno_acoustic:
  "spec_credited [''techno'', ''acoustic''] =
     [mk_preset [''edm'', ''electro'', ''house'', ''techno'', ''trance'', ''dubstep''] 0.9 0.8 0.6,
      mk_preset [''acoustic'', ''folk'', ''singer-songwriter''] 0.4 0.45 0.7]"
  by code_simp

lemma credited_rock_jazz_metal:
  "spec_credited [''Hard Rock'', ''jazz'', ''Metal''] =
     [mk_preset [''rock'', ''hard rock'', ''punk''] 0.8 0.55 0.55,
      mk_preset [''metal''] 0.95 0.4 0.4]"
  by code_simp

lemma mean_techno_acoustic:
  "spec_mean_dbl
     [mk_preset [''edm'', ''electro'', ''house'', ''techno'', ''trance'', ''dubstep''] 0.9 0.8 0.6,
      mk_preset [''acoustic'', ''folk'', ''singer-songwriter''] 0.4 0.45 0.7] =
   \<lparr>energy = 5854679515581645 / 2 ^ 53, danceability = 5 / 8,
    valence = 5854679515581644 / 2 ^ 53\<rparr>"
  by (simp add: spec_mean_dbl_def spec_sum_dbl_def mk_preset_def dbl_eval)

lemma mean_rock_metal:
  "spec_mean_dbl
     [mk_preset [''rock'', ''hard rock'', ''punk''] 0.8 0.55 0.55,
      mk_preset [''metal''] 0.95 0.4 0.4] =
   \<lparr>energy = 7 / 8, danceability = 8556839292003943 / 2 ^ 54,
    valence = 8556839292003943 / 2 ^ 54\<rparr>"
  by (simp add: spec_mean_dbl_def spec_sum_dbl_def mk_preset_def dbl_eval)

lemma dbl_065: "dbl 0.65 = 5854679515581645 / 2 ^ 53"
  by (simp add: dbl_eval)

lemma dbl_0625: "dbl 0.625 = 5 / 8"
  by (simp add: dbl_eval)

lemma dbl_06499: "dbl 0.6499999999999999 = 5854679515581644 / 2 ^ 53"
  by (simp add: dbl_eval)

lemma dbl_0875: "dbl 0.875 = 7 / 8"
  by (simp add: dbl_eval)

lemma dbl_0475: "dbl 0.47500000000000003 = 8556839292003943 / 2 ^ 54"
  by (simp add: dbl_eval)

lemma estimate_dbl_techno_acoustic:
  "estimateFeaturesFromGenres_dbl (Some [''techno'', ''acoustic'']) =
     \<lparr>energy = 5854679515581645 / 2 ^ 53, danceability = 5 / 8,
      valence = 5854679515581644 / 2 ^ 53\<rparr>"
proof -
  have "spec_credited [''techno'', ''acoustic''] \<noteq> []"
    by (simp add: credited_techno_acoustic)
  then have "estimateFeaturesFromGenres_dbl (Some [''techno'', ''acoustic'']) =
      spec_mean_dbl (spec_credited [''techno'', ''acoustic''])"
    by (simp add: estimate_dbl_spec)
  then show ?thesis
    by (simp only: credited_techno_acoustic mean_techno_acoustic)
qed

lemma credited_jazz: "spec_credited [''jazz''] = []"
  by code_simp

text \<open>
  C2 as the specification states it fails in its example: for the list techno, acoustic
  the valence is the double below the one written 0.65, since the rounded sum of 0.6 and
  0.7 is 1.2999999999999998.
\<close>

theorem estimateFeatures_dbl_techno_acoustic_below:
  "valence (estimateFeaturesFromGenres_dbl (Some [''techno'', ''acoustic''])) < dbl 0.65
   \<and> estimateFeaturesFromGenres_dbl (Some [''techno'', ''acoustic'']) \<noteq>
       \<lparr>energy = dbl 0.65, danceability = dbl 0.625, valence = dbl 0.65\<rparr>"
proof -
  have "valence (estimateFeaturesFromGenres_dbl (Some [''techno'', ''acoustic''])) < dbl 0.65"
    unfolding estimate_dbl_techno_acoustic dbl_065 by simp
  then show ?thesis by auto
qed

text \<open>
  C2, amended: for every list of genre strings, also an absent one, the estimator credits
  per genre the first preset in table order with a substring keyword hit and returns the
  elementwise mean of the credited triples in double precision: each component added up
  in list order and divided by the number of credited presets, every step rounded. With
  nothing credited (an empty or absent list, or no genre matching) it returns the default
  triple 0.6, 0.6, 0.6. The list techno, acoustic gives 0.65, 0.625, 0.6499999999999999.
\<close>

theorem estimateFeatures_dbl_first_hit_mean:
  "estimateFeaturesFromGenres_dbl genres =
     (case genres of
        None \<Rightarrow> \<lparr>energy = dbl 0.6, danceability = dbl 0.6, valence = dbl 0.6\<rparr>
      | Some gs \<Rightarrow>
          if spec_credited gs = []
          then \<lparr>energy = dbl 0.6, danceability = dbl 0.6, valence = dbl 0.6\<rparr>
          else spec_mean_dbl (spec_credited gs))
   \<and> spec_credited [] = []
   \<and> estimateFeaturesFromGenres_dbl (Some [''techno'', ''acoustic'']) =
       \<lparr>energy = dbl 0.65, danceability = dbl 0.625, valence = dbl 0.6499999999999999\<rparr>"
proof -
  have "estimateFeaturesFromGenres_dbl genres =
     (case genres of
        None \<Rightarrow> \<lparr>energy = dbl 0.6, danceability = dbl 0.6, valence = dbl 0.6\<rparr>
      | Some gs \<Rightarrow>
          if spec_credited gs = []
          then \<lparr>energy = dbl 0.6, danceability = dbl 0.6, valence = dbl 0.6\<rparr>
          else spec_mean_dbl (spec_credited gs))"
    using estimate_dbl_spec [of genres]
    by (simp add: DEFAULT_FEATURES_dbl_def split: option.split)
  moreover have "spec_credited [] = []"
    by (simp add: spec_credited_def)
  moreover have "estimateFeaturesFromGenres_dbl (Some [''techno'', ''acoustic'']) =
       \<lparr>energy = dbl 0.65, danceability = dbl 0.625, valence = dbl 0.6499999999999999\<rparr>"
    by (simp only: estimate_dbl_techno_acoustic dbl_065 dbl_0625 dbl_06499)
  ultimately show ?thesis by (intro conjI)
qed

theorem estimateFeatures_dbl_first_hit_mean_witness:
  "spec_credited [''Hard Rock'', ''jazz'', ''Metal''] =
     [mk_preset [''rock'', ''hard rock'', ''punk''] 0.8 0.55 0.55,
      mk_preset [''metal''] 0.95 0.4 0.4]
   \<and> estimateFeaturesFromGenres_dbl (Some [''Hard Rock'', ''jazz'', ''Metal'']) =
       \<lparr>energy = dbl 0.875, danceability = dbl 0.47500000000000003,
        valence = dbl 0.47500000000000003\<rparr>
   \<and> spec_credited [''jazz''] = []
   \<and> estimateFeaturesFromGenres_dbl (Some [''jazz'']) =
       \<lparr>energy = dbl 0.6, danceability = dbl 0.6, valence = dbl 0.6\<rparr>"
proof -
  have n: "spec_credited [''Hard Rock'', ''jazz'', ''Metal''] \<noteq> []"
    by (simp add: credited_rock_jazz_metal)
  have "estimateFeaturesFromGenres_dbl (Some [''Hard Rock'', ''jazz'', ''Metal'']) =
      spec_mean_dbl (spec_credited [''Hard Rock'', ''jazz'', ''Metal''])"
    using estimateFeatures_dbl_first_hit_mean [of "Some [''Hard Rock'', ''jazz'', ''Metal'']"] n
    by simp
  then have a: "estimateFeaturesFromGenres_dbl (Some [''Hard Rock'', ''jazz'', ''Metal'']) =
       \<lparr>energy = dbl 0.875, danceability = dbl 0.47500000000000003,
        valence = dbl 0.47500000000000003\<rparr>"
    by (simp only: credited_rock_jazz_metal mean_rock_metal dbl_0875 dbl_0475)
  have b: "estimateFeaturesFromGenres_dbl (Some [''jazz'']) =
       \<lparr>energy = dbl 0.6, danceability = dbl 0.6, valence = dbl 0.6\<rparr>"
    using estimateFeatures_dbl_first_hit_mean [of "Some [''jazz'']"] credited_jazz
    by simp
  show ?thesis
    using credited_rock_jazz_metal a credited_jazz b by (intro conjI)
qed

section \<open>Properties of the mock fallback\<close>

lemma mock_spec: "generateMockSongs seedSong m = spec_mockSongs m"
  by (simp add: generateMockSongs_def spec_mockSongs_def spec_mockTable_def spec_mockSong_def
      mockEntry_def Let_def)

lemma mock_ids: "map rec_id (generateMockSongs seedSong m) = mockIds"
  by (simp add: generateMockSongs_def mockEntry_def mockIds_def Let_def)

lemma mock_length: "length (generateMockSongs seedSong m) = 10"
  by (simp add: generateMockSongs_def Let_def)

lemma mock_fixed:
  "map withoutReason (generateMockSongs seedSong m) =
   map withoutReason (generateMockSongs seedSong' m')"
  by (simp add: generateMockSongs_def mockEntry_def withoutReason_def Let_def)

lemma mock_third:
  "reason (generateMockSongs seedSong m ! 2) =
     mockReason (js_round (energy m * 110)) (js_round (danceability m * 95))
       (js_round (valence m * 85))"
  by (simp add: generateMockSongs_def mockEntry_def Let_def)

lemma mock_over_100:
  "reason (generateMockSongs seedSong \<lparr>energy = 1, danceability = 1, valence = 1\<rparr> ! 2) =
     ''110% energy match, 95% danceability match, 85% mood match''"
  by (simp add: mock_third mockReason_def js_round_def show_int_def show_nat.simps digit_char_def)

lemma mock_distinct: "distinct (map rec_id (generateMockSongs seedSong m))"
  by (simp add: mock_ids mockIds_def)

text \<open>
  C8: \<open>generateMockSongs\<close> is a function of its arguments alone; for every mood settings
  (and every seed song) it returns the same ten placeholder tracks, with the ids mock-1 to
  mock-10, and each entry's three percentages are the rounded products of the target
  dimension and the entry's multiplier, not clamped: the third entry multiplies the energy
  by 110, which shows as 110% at energy 1.
\<close>

theorem generateMockSongs_fixed_list:
  "generateMockSongs seedSong m = spec_mockSongs m
   \<and> length (generateMockSongs seedSong m) = 10
   \<and> map rec_id (generateMockSongs seedSong m) = mockIds
   \<and> map withoutReason (generateMockSongs seedSong m) =
       map withoutReason (generateMockSongs seedSong' m')
   \<and> reason (generateMockSongs seedSong m ! 2) =
       mockReason (js_round (energy m * 110)) (js_round (danceability m * 95))
         (js_round (valence m * 85))
   \<and> reason (generateMockSongs seedSong \<lparr>energy = 1, danceability = 1, valence = 1\<rparr> ! 2) =
       ''110% energy match, 95% danceability match, 85% mood match''"
  using mock_spec [of seedSong m] mock_length [of seedSong m] mock_ids [of seedSong m]
    mock_fixed [of seedSong m seedSong' m'] mock_third [of seedSong m] mock_over_100 [of seedSong]
  by (intro conjI)

theorem generateMockSongs_fixed_list_witness:
  "generateMockSongs ex_seed ex_mood = spec_mockSongs ex_mood
   \<and> length (generateMockSongs ex_seed ex_mood) = 10
   \<and> map rec_id (generateMockSongs ex_seed ex_mood) = mockIds
   \<and> map withoutReason (generateMockSongs ex_seed ex_mood) =
       map withoutReason (generateMockSongs ex_mock_seed DEFAULT_FEATURES)
   \<and> reason (generateMockSongs ex_seed ex_mood ! 2) =
       ''88% energy match, 67% danceability match, 51% mood match''"
proof -
  have "mockReason (js_round (energy ex_mood * 110)) (js_round (danceability ex_mood * 95))
         (js_round (valence ex_mood * 85)) =
        ''88% energy match, 67% danceability match, 51% mood match''"
    by (simp add: ex_mood_def mockReason_def js_round_def show_int_def show_nat.simps
        digit_char_def)
  then show ?thesis
    using generateMockSongs_fixed_list [of ex_seed ex_mood ex_mock_seed DEFAULT_FEATURES]
    by (elim conjE, intro conjI) (simp_all only:)
qed

section \<open>Properties of the scoring and of the ranking\<close>

lemma genresFor_spec:
  "genresFor artistMap seedGenres t =
     (case spec_resolvedGenres artistMap t of None \<Rightarrow> seedGenres | Some gs \<Rightarrow> gs)"
  by (simp add: genresFor_def spec_resolvedGenres_def split: option.splits)

lemma resolved_empty_default:
  "spec_resolvedGenres artistMap t = Some [] \<Longrightarrow>
     scored_features (scoreTrack artistMap seedGenres m t) =
       \<lparr>energy = 0.6, danceability = 0.6, valence = 0.6\<rparr>"
  by (simp add: scoreTrack_def genresFor_spec estimateFeaturesFromGenres_def
      DEFAULT_FEATURES_def Let_def)

lemma estimate_techno:
  "estimateFeaturesFromGenres (Some [''techno'']) =
     \<lparr>energy = 0.9, danceability = 0.8, valence = 0.6\<rparr>"
  by code_simp

text \<open>
  C9: the ranking uses the seed artist's genres for a candidate exactly when no genre
  list was resolved for it, that is when its primary artist has no record in the artist
  map or the record has no genres field; a record resolved with an empty genre list is
  used as it is, and the estimator then gives the default triple 0.6, 0.6, 0.6.
\<close>

theorem genresFor_seed_fallback:
  "genresFor artistMap seedGenres t =
     (case spec_resolvedGenres artistMap t of None \<Rightarrow> seedGenres | Some gs \<Rightarrow> gs)
   \<and> (spec_resolvedGenres artistMap t = Some [] \<longrightarrow>
        genresFor artistMap seedGenres t = [] \<and>
        scored_features (scoreTrack artistMap seedGenres m t) =
          \<lparr>energy = 0.6, danceability = 0.6, valence = 0.6\<rparr>)"
  using genresFor_spec [of artistMap seedGenres t]
    resolved_empty_default [of artistMap t seedGenres m]
  by simp

theorem genresFor_seed_fallback_witness:
  "spec_resolvedGenres ex_artistMap (ex_track ''t1'' ''a1'') = Some []
   \<and> genresFor ex_artistMap [''techno''] (ex_track ''t1'' ''a1'') = []
   \<and> scored_features (scoreTrack ex_artistMap [''techno''] ex_mood (ex_track ''t1'' ''a1'')) =
       \<lparr>energy = 0.6, danceability = 0.6, valence = 0.6\<rparr>
   \<and> estimateFeaturesFromGenres (Some [''techno'']) =
       \<lparr>energy = 0.9, danceability = 0.8, valence = 0.6\<rparr>"
proof -
  have h: "spec_resolvedGenres ex_artistMap (ex_track ''t1'' ''a1'') = Some []"
    by (simp add: spec_resolvedGenres_def primaryArtistId_def truthy_def ex_track_def
        ex_artistMap_def)
  show ?thesis
    using h genresFor_seed_fallback [of ex_artistMap "[''techno'']" "ex_track ''t1'' ''a1''" ex_mood]
      estimate_techno
    by simp
qed

lemma js_round_bounds:
  "0 \<le> x \<Longrightarrow> x \<le> 100 \<Longrightarrow> 0 \<le> js_round x \<and> js_round x \<le> 100"
  unfolding js_round_def by linarith

lemma matchPercent_bounds:
  assumes "0 \<le> f" "f \<le> 1" "0 \<le> t" "t \<le> 1"
  shows "0 \<le> matchPercent f t \<and> matchPercent f t \<le> 100"
proof -
  have "\<bar>f - t\<bar> \<le> 1" using assms by linarith
  then have "0 \<le> (1 - \<bar>f - t\<bar>) * 100" "(1 - \<bar>f - t\<bar>) * 100 \<le> 100" by simp_all
  then show ?thesis unfolding matchPercent_def by (rule js_round_bounds)
qed

lemma top_length: "length (topMatches artistMap seedGenres m cands) = min 10 (length cands)"
  by (simp add: topMatches_def tracksWithScores_def)

lemma top_sorted: "sorted (map moodScore (topMatches artistMap seedGenres m cands))"
  by (simp add: topMatches_def tracksWithScores_def take_map [symmetric] sorted_wrt_take)

lemma filter_take_prefix: "prefix (filter P (take n xs)) (filter P xs)"
proof -
  have "filter P xs = filter P (take n xs) @ filter P (drop n xs)"
    by (metis append_take_drop_id filter_append)
  then show ?thesis by (simp add: prefix_def)
qed

lemma top_stable:
  "prefix (filter (\<lambda>sc. moodScore sc = k) (topMatches artistMap seedGenres m cands))
          (filter (\<lambda>sc. moodScore sc = k) (map (scoreTrack artistMap seedGenres m) cands))"
proof -
  have "prefix (filter (\<lambda>sc. moodScore sc = k) (topMatches artistMap seedGenres m cands))
          (filter (\<lambda>sc. moodScore sc = k) (tracksWithScores artistMap seedGenres m cands))"
    unfolding topMatches_def by (rule filter_take_prefix)
  then show ?thesis by (simp add: tracksWithScores_def sort_key_stable)
qed

lemma top_subset:
  "set (topMatches am sg m cands) \<subseteq> set (map (scoreTrack am sg m) cands)"
  unfolding topMatches_def tracksWithScores_def using set_take_subset [of 10] by fastforce

lemma scored_track_scoreTrack [simp]: "scored_track (scoreTrack am sg m t) = t"
  by (simp add: scoreTrack_def Let_def)

lemma scored_features_scoreTrack:
  "scored_features (scoreTrack am sg m t) = estimateFeaturesFromGenres (Some (genresFor am sg t))"
  by (simp add: scoreTrack_def Let_def)

lemma rec_id_toRecommendation [simp]:
  "rec_id (toRecommendation m n sc) = track_id (scored_track sc)"
  by (simp add: toRecommendation_def Let_def)

lemma reason_toRecommendation:
  "reason (toRecommendation m n sc) =
     liveReason (matchPercent (energy (scored_features sc)) (energy m))
       (matchPercent (danceability (scored_features sc)) (danceability m))
       (matchPercent (valence (scored_features sc)) (valence m)) n"
  by (simp add: toRecommendation_def Let_def)

lemma rankAndFormat_fst:
  "fst (rankAndFormat net seedSong m sg st) =
     map (toRecommendation m (seedArtistNameOf seedSong))
       (topMatches
          (fst (fetchBatches net (batchesOf (collectArtistIds (candidateTracks st) []))
                  (Map.empty, requests st)))
          sg m (candidateTracks st))"
  by (simp add: rankAndFormat_def Let_def split: prod.splits)

lemma rankAndFormat_top:
  "\<exists>am. fst (rankAndFormat net seedSong m sg st) =
     map (toRecommendation m (seedArtistNameOf seedSong)) (topMatches am sg m (candidateTracks st))"
  using rankAndFormat_fst by blast

lemma rankAndFormat_length:
  "length (fst (rankAndFormat net seedSong m sg st)) = min 10 (length (candidateTracks st))"
  using rankAndFormat_top [of net seedSong m sg st] by (auto simp add: top_length)

text \<open>
  C10: on the live path, when the mood settings lie in the unit cube, every returned
  item's reason is built from three percentages \<open>round((1 - |feature - target|) * 100)\<close>
  of a feature triple in the unit cube, and each of the three lies between 0 and 100.
\<close>

theorem live_percentages_in_range:
  assumes "unit_features m"
    and "r \<in> set (fst (rankAndFormat net seedSong m seedGenres st))"
  shows "\<exists>feats. unit_features feats \<and>
           reason r =
             liveReason (matchPercent (energy feats) (energy m))
               (matchPercent (danceability feats) (danceability m))
               (matchPercent (valence feats) (valence m)) (seedArtistNameOf seedSong) \<and>
           0 \<le> matchPercent (energy feats) (energy m) \<and>
           matchPercent (energy feats) (energy m) \<le> 100 \<and>
           0 \<le> matchPercent (danceability feats) (danceability m) \<and>
           matchPercent (danceability feats) (danceability m) \<le> 100 \<and>
           0 \<le> matchPercent (valence feats) (valence m) \<and>
           matchPercent (valence feats) (valence m) \<le> 100"
proof -
  obtain am where am: "fst (rankAndFormat net seedSong m seedGenres st) =
     map (toRecommendation m (seedArtistNameOf seedSong))
       (topMatches am seedGenres m (candidateTracks st))"
    using rankAndFormat_top by blast
  with assms(2) obtain sc where sc: "sc \<in> set (topMatches am seedGenres m (candidateTracks st))"
    and r: "r = toRecommendation m (seedArtistNameOf seedSong) sc"
    by auto
  from sc top_subset obtain t where "sc = scoreTrack am seedGenres m t"
    by fastforce
  then have u: "unit_features (scored_features sc)"
    by (simp add: scored_features_scoreTrack estimate_unit)
  have e: "0 \<le> matchPercent (energy (scored_features sc)) (energy m) \<and>
           matchPercent (energy (scored_features sc)) (energy m) \<le> 100"
    using u assms(1) by (intro matchPercent_bounds) (simp_all add: unit_features_def)
  have d: "0 \<le> matchPercent (danceability (scored_features sc)) (danceability m) \<and>
           matchPercent (danceability (scored_features sc)) (danceability m) \<le> 100"
    using u assms(1) by (intro matchPercent_bounds) (simp_all add: unit_features_def)
  have v: "0 \<le> matchPercent (valence (scored_features sc)) (valence m) \<and>
           matchPercent (valence (scored_features sc)) (valence m) \<le> 100"
    using u assms(1) by (intro matchPercent_bounds) (simp_all add: unit_features_def)
  show ?thesis
    using u e d v by (intro exI [of _ "scored_features sc"]) (simp add: r reason_toRecommendation)
qed

lemma ex_mood_unit: "unit_features ex_mood"
  by (simp add: unit_features_def ex_mood_def)

lemma ex_one_length: "length (fst (rankAndFormat ex_offline ex_seed ex_mood [''techno''] ex_one)) = 1"
  by (simp add: rankAndFormat_length ex_one_def)

theorem live_percentages_in_range_witness:
  "unit_features ex_mood \<and>
   hd (fst (rankAndFormat ex_offline ex_seed ex_mood [''techno''] ex_one)) \<in>
     set (fst (rankAndFormat ex_offline ex_seed ex_mood [''techno''] ex_one)) \<and>
   (\<exists>feats. unit_features feats \<and>
      reason (hd (fst (rankAndFormat ex_offline ex_seed ex_mood [''techno''] ex_one))) =
        liveReason (matchPercent (energy feats) (energy ex_mood))
          (matchPercent (danceability feats) (danceability ex_mood))
          (matchPercent (valence feats) (valence ex_mood)) (seedArtistNameOf ex_seed) \<and>
      0 \<le> matchPercent (energy feats) (energy ex_mood) \<and>
      matchPercent (energy feats) (energy ex_mood) \<le> 100 \<and>
      0 \<le> matchPercent (danceability feats) (danceability ex_mood) \<and>
      matchPercent (danceability feats) (danceability ex_mood) \<le> 100 \<and>
      0 \<le> matchPercent (valence feats) (valence ex_mood) \<and>
      matchPercent (valence feats) (valence ex_mood) \<le> 100)"
proof -
  have "fst (rankAndFormat ex_offline ex_seed ex_mood [''techno''] ex_one) \<noteq> []"
    using ex_one_length by auto
  then have h: "hd (fst (rankAndFormat ex_offline ex_seed ex_mood [''techno''] ex_one)) \<in>
     set (fst (rankAndFormat ex_offline ex_seed ex_mood [''techno''] ex_one))"
    by (rule hd_in_set)
  show ?thesis
    using ex_mood_unit h live_percentages_in_range [OF ex_mood_unit h]
    by (intro conjI)
qed

section \<open>Properties of the candidate collection\<close>

lemma addIfUnseen_inv: "pool_inv s st \<Longrightarrow> pool_inv s (addIfUnseen t st)"
  by (auto simp add: pool_inv_def addIfUnseen_def)

lemma addIfUnseen_requests [simp]: "requests (addIfUnseen t st) = requests st"
  by (simp add: addIfUnseen_def)

lemma addIfUnseen_length:
  "length (candidateTracks (addIfUnseen t st)) \<le> Suc (length (candidateTracks st))"
  by (simp add: addIfUnseen_def)

lemma addIfUnseen_grows:
  "\<exists>new. candidateTracks (addIfUnseen t st) = candidateTracks st @ new \<and> subseq new [t]"
  by (simp add: addIfUnseen_def)

lemma addTopTracks_inv: "pool_inv s st \<Longrightarrow> pool_inv s (addTopTracks ts st)"
  by (induction ts arbitrary: st) (simp_all add: addIfUnseen_inv)

lemma addTopTracks_requests [simp]: "requests (addTopTracks ts st) = requests st"
  by (induction ts arbitrary: st) simp_all

lemma addFound_inv: "pool_inv s st \<Longrightarrow> pool_inv s (addFound ts st)"
  by (induction ts arbitrary: st) (simp_all add: addIfUnseen_inv Let_def)

lemma addFound_requests [simp]: "requests (addFound ts st) = requests st"
  by (induction ts arbitrary: st) (simp_all add: Let_def)

lemma addFound_cap:
  "length (candidateTracks st) < 40 \<Longrightarrow> length (candidateTracks (addFound ts st)) \<le> 40"
proof (induction ts arbitrary: st)
  case Nil
  then show ?case by simp
next
  case (Cons t ts)
  have le: "length (candidateTracks (addIfUnseen t st)) \<le> 40"
    using addIfUnseen_length [of t st] Cons.prems by simp
  show ?case
  proof (cases "40 \<le> length (candidateTracks (addIfUnseen t st))")
    case True
    with le show ?thesis by (simp add: Let_def)
  next
    case False
    then have "length (candidateTracks (addIfUnseen t st)) < 40" by simp
    from Cons.IH [OF this] False show ?thesis by (simp add: Let_def)
  qed
qed

lemma searchGenre_requests: "requests (searchGenre net g st) = requests st @ [Search g]"
  by (simp add: searchGenre_def split: sum.splits)

lemma searchGenre_inv: "pool_inv s st \<Longrightarrow> pool_inv s (searchGenre net g st)"
proof -
  assume a: "pool_inv s st"
  then have "pool_inv s (st\<lparr>requests := requests st @ [Search g]\<rparr>)"
    by (simp add: pool_inv_def)
  then show ?thesis
    using a by (simp add: searchGenre_def addFound_inv split: sum.splits)
qed

lemma searchGenre_cap:
  "length (candidateTracks st) < 40 \<Longrightarrow> length (candidateTracks (searchGenre net g st)) \<le> 40"
  by (simp add: searchGenre_def addFound_cap split: sum.splits)

lemma searchGenres_inv: "pool_inv s st \<Longrightarrow> pool_inv s (searchGenres net gs st)"
  by (induction gs arbitrary: st) (simp_all add: searchGenre_inv Let_def)

lemma searchGenres_cap:
  "length (candidateTracks st) < 40 \<Longrightarrow> length (candidateTracks (searchGenres net gs st)) \<le> 40"
proof (induction gs arbitrary: st)
  case Nil
  then show ?case by simp
next
  case (Cons g gs)
  have le: "length (candidateTracks (searchGenre net g st)) \<le> 40"
    using Cons.prems by (rule searchGenre_cap)
  show ?case
  proof (cases "40 \<le> length (candidateTracks (searchGenre net g st))")
    case True
    with le show ?thesis by (simp add: Let_def)
  next
    case False
    then have "length (candidateTracks (searchGenre net g st)) < 40" by simp
    from Cons.IH [OF this] False show ?thesis by (simp add: Let_def)
  qed
qed

lemma searchGenres_requests:
  "\<exists>k\<le>length gs.
     requests (searchGenres net gs st) = requests st @ map Search (take k gs) \<and>
     (k < length gs \<longrightarrow> 40 \<le> length (candidateTracks (searchGenres net gs st)))"
proof (induction gs arbitrary: st)
  case Nil
  show ?case by simp
next
  case (Cons g gs)
  show ?case
  proof (cases "40 \<le> length (candidateTracks (searchGenre net g st))")
    case True
    then have "requests (searchGenres net (g # gs) st) = requests st @ map Search (take 1 (g # gs))"
      and "40 \<le> length (candidateTracks (searchGenres net (g # gs) st))"
      by (simp_all add: Let_def searchGenre_requests)
    then show ?thesis by (intro exI [of _ 1]) simp
  next
    case False
    from Cons.IH [of "searchGenre net g st"] obtain k where k: "k \<le> length gs"
      "requests (searchGenres net gs (searchGenre net g st)) =
         requests (searchGenre net g st) @ map Search (take k gs)"
      "k < length gs \<longrightarrow>
         40 \<le> length (candidateTracks (searchGenres net gs (searchGenre net g st)))"
      by blast
    with False show ?thesis
      by (intro exI [of _ "Suc k"]) (simp add: Let_def searchGenre_requests)
  qed
qed

lemma searchGenres_failed_skip:
  assumes "searchTracks net (requests st) g = Inl e" and "length (candidateTracks st) < 40"
  shows "searchGenres net (g # gs) st =
         searchGenres net gs (st\<lparr>requests := requests st @ [Search g]\<rparr>)"
  using assms by (simp add: searchGenre_def Let_def)

lemma searchGenres_stop:
  assumes "40 \<le> length (candidateTracks (searchGenre net g st))"
  shows "searchGenres net (g # gs) st = searchGenre net g st"
  using assms by (simp add: Let_def)

subsection \<open>The order of the pool\<close>

lemma addTopTracks_order:
  "\<exists>new. candidateTracks (addTopTracks ts st) = candidateTracks st @ new \<and> subseq new ts"
proof (induction ts arbitrary: st)
  case Nil
  show ?case by simp
next
  case (Cons t ts)
  obtain n1 where n1: "candidateTracks (addIfUnseen t st) = candidateTracks st @ n1" "subseq n1 [t]"
    using addIfUnseen_grows by blast
  obtain n2 where n2: "candidateTracks (addTopTracks ts (addIfUnseen t st)) =
      candidateTracks (addIfUnseen t st) @ n2" "subseq n2 ts"
    using Cons.IH by blast
  have "subseq (n1 @ n2) ([t] @ ts)" using n1(2) n2(2) by (rule list_emb_append_mono)
  with n1 n2 show ?case by (intro exI [of _ "n1 @ n2"]) simp
qed

lemma addFound_order:
  "\<exists>new. candidateTracks (addFound ts st) = candidateTracks st @ new \<and> subseq new ts"
proof (induction ts arbitrary: st)
  case Nil
  show ?case by simp
next
  case (Cons t ts)
  obtain n1 where n1: "candidateTracks (addIfUnseen t st) = candidateTracks st @ n1" "subseq n1 [t]"
    using addIfUnseen_grows by blast
  show ?case
  proof (cases "40 \<le> length (candidateTracks (addIfUnseen t st))")
    case True
    have "subseq (n1 @ []) ([t] @ ts)" using n1(2) by (intro list_emb_append_mono) simp_all
    with True n1 show ?thesis by (intro exI [of _ n1]) (simp add: Let_def)
  next
    case False
    obtain n2 where n2: "candidateTracks (addFound ts (addIfUnseen t st)) =
        candidateTracks (addIfUnseen t st) @ n2" "subseq n2 ts"
      using Cons.IH by blast
    have "subseq (n1 @ n2) ([t] @ ts)" using n1(2) n2(2) by (rule list_emb_append_mono)
    with False n1 n2 show ?thesis by (intro exI [of _ "n1 @ n2"]) (simp add: Let_def)
  qed
qed

lemma searchGenre_order:
  "\<exists>new. candidateTracks (searchGenre net g st) = candidateTracks st @ new \<and>
     subseq new (case searchTracks net (requests st) g of Inl e \<Rightarrow> [] | Inr found \<Rightarrow> found)"
proof (cases "searchTracks net (requests st) g")
  case (Inl e)
  then show ?thesis by (simp add: searchGenre_def)
next
  case (Inr found)
  obtain new where
    "candidateTracks (addFound found (st\<lparr>requests := requests st @ [Search g]\<rparr>)) =
      candidateTracks (st\<lparr>requests := requests st @ [Search g]\<rparr>) @ new" "subseq new found"
    using addFound_order by blast
  with Inr show ?thesis by (intro exI [of _ new]) (simp add: searchGenre_def)
qed

lemma searchGenres_prefix:
  "prefix (candidateTracks st) (candidateTracks (searchGenres net gs st))"
proof (induction gs arbitrary: st)
  case Nil
  show ?case by simp
next
  case (Cons g gs)
  have p1: "prefix (candidateTracks st) (candidateTracks (searchGenre net g st))"
    using searchGenre_order [of net g st] by (auto simp add: prefix_def)
  show ?case
  proof (cases "40 \<le> length (candidateTracks (searchGenre net g st))")
    case True
    with p1 show ?thesis by (simp add: Let_def)
  next
    case False
    with p1 Cons.IH [of "searchGenre net g st"] show ?thesis
      by (auto simp add: Let_def intro: prefix_order.trans)
  qed
qed

lemma searchGenres_later:
  "prefix (candidateTracks (searchGenre net g st))
     (candidateTracks (searchGenres net (g # gs) st))"
  by (simp add: Let_def searchGenres_prefix)

subsection \<open>Tracks that are all new\<close>

lemma addTopTracks_fresh:
  "distinct (map track_id ts) \<Longrightarrow> set (map track_id ts) \<inter> seenTrackIds st = {} \<Longrightarrow>
     addTopTracks ts st =
       st\<lparr>candidateTracks := candidateTracks st @ ts,
          seenTrackIds := set (map track_id ts) \<union> seenTrackIds st\<rparr>"
proof (induction ts arbitrary: st)
  case Nil
  show ?case by simp
next
  case (Cons t ts)
  from Cons.prems have fresh: "track_id t \<notin> seenTrackIds st" by auto
  then have step: "addIfUnseen t st =
      st\<lparr>candidateTracks := candidateTracks st @ [t],
         seenTrackIds := insert (track_id t) (seenTrackIds st)\<rparr>"
    by (simp add: addIfUnseen_def)
  have "set (map track_id ts) \<inter> seenTrackIds (addIfUnseen t st) = {}"
    using Cons.prems by (auto simp add: step)
  moreover have "distinct (map track_id ts)" using Cons.prems by simp
  ultimately show ?case
    using Cons.IH [of "addIfUnseen t st"] by (simp add: step)
qed

lemma addFound_fresh:
  "distinct (map track_id ts) \<Longrightarrow> set (map track_id ts) \<inter> seenTrackIds st = {} \<Longrightarrow>
   length (candidateTracks st) + length ts \<le> 40 \<Longrightarrow>
     addFound ts st =
       st\<lparr>candidateTracks := candidateTracks st @ ts,
          seenTrackIds := set (map track_id ts) \<union> seenTrackIds st\<rparr>"
proof (induction ts arbitrary: st)
  case Nil
  show ?case by simp
next
  case (Cons t ts)
  from Cons.prems have fresh: "track_id t \<notin> seenTrackIds st" by auto
  then have step: "addIfUnseen t st =
      st\<lparr>candidateTracks := candidateTracks st @ [t],
         seenTrackIds := insert (track_id t) (seenTrackIds st)\<rparr>"
    by (simp add: addIfUnseen_def)
  show ?case
  proof (cases "40 \<le> length (candidateTracks (addIfUnseen t st))")
    case True
    with Cons.prems(3) have "ts = []" by (cases ts) (simp_all add: step)
    with True show ?thesis by (simp add: Let_def step)
  next
    case False
    have "set (map track_id ts) \<inter> seenTrackIds (addIfUnseen t st) = {}"
      using Cons.prems by (auto simp add: step)
    moreover have "distinct (map track_id ts)" using Cons.prems by simp
    moreover have "length (candidateTracks (addIfUnseen t st)) + length ts \<le> 40"
      using Cons.prems(3) by (simp add: step)
    ultimately show ?thesis
      using Cons.IH [of "addIfUnseen t st"] False by (simp add: Let_def step)
  qed
qed

subsection \<open>Twenty top tracks and twenty search hits\<close>

lemma ex_tracks_ids: "map track_id (ex_tracks p a ks) = map ((@) p) ks"
  by (simp add: ex_tracks_def ex_track_def comp_def)

lemma ex_tracks_length: "length (ex_tracks p a ks) = length ks"
  by (simp add: ex_tracks_def)

lemma ex_20_length: "length ex_20 = 20"
  by (simp add: ex_20_def)

lemma top_20_distinct: "distinct (map track_id (ex_tracks ''top-'' ''a0'' ex_20))"
  by (simp add: ex_tracks_ids ex_20_def)

lemma techno_20_distinct: "distinct (map track_id (ex_tracks ''techno-'' ''a1'' ex_20))"
  by (simp add: ex_tracks_ids ex_20_def)

lemma top_20_fresh:
  "set (map track_id (ex_tracks ''top-'' ''a0'' ex_20)) \<inter> {track_id ex_seed} = {}"
  by (simp add: ex_tracks_ids ex_20_def ex_seed_def ex_track_def)

lemma techno_20_fresh:
  "set (map track_id (ex_tracks ''techno-'' ''a1'' ex_20)) \<inter>
     (set (map track_id (ex_tracks ''top-'' ''a0'' ex_20)) \<union> {track_id ex_seed}) = {}"
  by (simp add: ex_tracks_ids ex_20_def ex_seed_def ex_track_def)

lemma ex_after_top:
  "addTopTracks (ex_tracks ''top-'' ''a0'' ex_20) ex_start =
     \<lparr>candidateTracks = ex_tracks ''top-'' ''a0'' ex_20,
      seenTrackIds = set (map track_id (ex_tracks ''top-'' ''a0'' ex_20)) \<union> {track_id ex_seed},
      requests = []\<rparr>"
proof -
  have "set (map track_id (ex_tracks ''top-'' ''a0'' ex_20)) \<inter> seenTrackIds ex_start = {}"
    using top_20_fresh by (simp add: ex_start_def)
  with top_20_distinct show ?thesis
    by (simp add: addTopTracks_fresh ex_start_def)
qed

lemma ex_after_techno:
  "candidateTracks (searchGenre (ex_network ex_20 ex_20) ''techno''
      (addTopTracks (ex_tracks ''top-'' ''a0'' ex_20) ex_start)) =
     ex_tracks ''top-'' ''a0'' ex_20 @ ex_tracks ''techno-'' ''a1'' ex_20"
proof -
  let ?st = "\<lparr>candidateTracks = ex_tracks ''top-'' ''a0'' ex_20,
      seenTrackIds = set (map track_id (ex_tracks ''top-'' ''a0'' ex_20)) \<union> {track_id ex_seed},
      requests = [Search ''techno'']\<rparr>"
  have f: "searchTracks (ex_network ex_20 ex_20) [] ''techno'' =
      Inr (ex_tracks ''techno-'' ''a1'' ex_20)"
    by (simp add: ex_network_def)
  have "set (map track_id (ex_tracks ''techno-'' ''a1'' ex_20)) \<inter> seenTrackIds ?st = {}"
    using techno_20_fresh by simp
  moreover have "length (candidateTracks ?st) + length (ex_tracks ''techno-'' ''a1'' ex_20) \<le> 40"
    by (simp add: ex_tracks_length ex_20_length)
  ultimately have "addFound (ex_tracks ''techno-'' ''a1'' ex_20) ?st =
      ?st\<lparr>candidateTracks := candidateTracks ?st @ ex_tracks ''techno-'' ''a1'' ex_20,
          seenTrackIds :=
            set (map track_id (ex_tracks ''techno-'' ''a1'' ex_20)) \<union> seenTrackIds ?st\<rparr>"
    using techno_20_distinct by (rule addFound_fresh [rotated])
  then show ?thesis
    by (simp add: searchGenre_def ex_after_top f)
qed

lemma ex_pool_40:
  "length (candidateTracks (searchGenre (ex_network ex_20 ex_20) ''techno''
      (addTopTracks (ex_tracks ''top-'' ''a0'' ex_20) ex_start))) = 40"
  by (simp add: ex_after_techno ex_tracks_length ex_20_length)

lemma ex_collect_40:
  "collectCandidates (ex_network ex_20 ex_20) ex_seed [''techno'', ''house'', ''pop'']
      (ex_tracks ''top-'' ''a0'' ex_20) [] =
   searchGenre (ex_network ex_20 ex_20) ''techno''
      (addTopTracks (ex_tracks ''top-'' ''a0'' ex_20) ex_start)"
proof -
  have "collectCandidates (ex_network ex_20 ex_20) ex_seed [''techno'', ''house'', ''pop'']
      (ex_tracks ''top-'' ''a0'' ex_20) [] =
    searchGenres (ex_network ex_20 ex_20) [''techno'', ''house'']
      (addTopTracks (ex_tracks ''top-'' ''a0'' ex_20) ex_start)"
    by (simp add: collectCandidates_def ex_start_def Let_def)
  also have "\<dots> = searchGenre (ex_network ex_20 ex_20) ''techno''
      (addTopTracks (ex_tracks ''top-'' ''a0'' ex_20) ex_start)"
    using ex_pool_40 by (simp add: Let_def)
  finally show ?thesis .
qed

text \<open>
  C5 as the specification states it fails: with twenty new top tracks and twenty new hits
  of the first search the pool holds 40 tracks, and the search for the second main genre
  is never sent.
\<close>

theorem cap_skips_remaining_search:
  "length (candidateTracks
     (collectCandidates (ex_network ex_20 ex_20) ex_seed [''techno'', ''house'', ''pop'']
        (ex_tracks ''top-'' ''a0'' ex_20) [])) = 40
   \<and> requests
     (collectCandidates (ex_network ex_20 ex_20) ex_seed [''techno'', ''house'', ''pop'']
        (ex_tracks ''top-'' ''a0'' ex_20) []) = [Search ''techno'']"
  by (simp add: ex_collect_40 ex_pool_40 searchGenre_requests) (simp add: ex_start_def)

text \<open>
  C5, amended: the size of the pool is checked after every processed hit and after
  every genre search. A pool of fewer than 40 tracks never grows beyond 40; the searches
  sent are an initial part of the genre list, and a genre is left out only when the pool
  holds 40 tracks or more; once the pool holds 40 after a search, no further search is
  sent; a rejected search changes nothing but the log, and below 40 tracks the searches
  that follow it are still made.
\<close>

theorem searchGenres_cap_and_failures:
  "(length (candidateTracks st) < 40 \<longrightarrow>
      length (candidateTracks (searchGenres net gs st)) \<le> 40)
   \<and> (\<exists>k\<le>length gs.
        requests (searchGenres net gs st) = requests st @ map Search (take k gs) \<and>
        (k < length gs \<longrightarrow> 40 \<le> length (candidateTracks (searchGenres net gs st))))
   \<and> (40 \<le> length (candidateTracks (searchGenre net g st)) \<longrightarrow>
        searchGenres net (g # gs) st = searchGenre net g st)
   \<and> (searchTracks net (requests st) g = Inl e \<and> length (candidateTracks st) < 40 \<longrightarrow>
        searchGenres net (g # gs) st =
          searchGenres net gs (st\<lparr>requests := requests st @ [Search g]\<rparr>))"
  using searchGenres_cap [of st net gs] searchGenres_requests [of gs net st]
    searchGenres_stop [of net g st gs] searchGenres_failed_skip [of net st g e gs]
  by blast

theorem searchGenres_cap_and_failures_witness:
  "length (candidateTracks ex_start) < 40
   \<and> searchTracks ex_offline (requests ex_start) ''techno'' = Inl RequestFailed
   \<and> length (candidateTracks (searchGenres ex_offline [''house''] ex_start)) \<le> 40
   \<and> searchGenres ex_offline [''techno'', ''house''] ex_start =
       searchGenres ex_offline [''house'']
         (ex_start\<lparr>requests := requests ex_start @ [Search ''techno'']\<rparr>)
   \<and> 40 \<le> length (candidateTracks (searchGenre (ex_network ex_20 ex_20) ''techno''
        (addTopTracks (ex_tracks ''top-'' ''a0'' ex_20) ex_start)))
   \<and> searchGenres (ex_network ex_20 ex_20) [''techno'', ''house'']
        (addTopTracks (ex_tracks ''top-'' ''a0'' ex_20) ex_start) =
      searchGenre (ex_network ex_20 ex_20) ''techno''
        (addTopTracks (ex_tracks ''top-'' ''a0'' ex_20) ex_start)"
proof -
  have h1: "length (candidateTracks ex_start) < 40"
    by (simp add: ex_start_def)
  have h2: "searchTracks ex_offline (requests ex_start) ''techno'' = Inl RequestFailed"
    by (simp add: ex_offline_def)
  have h3: "40 \<le> length (candidateTracks (searchGenre (ex_network ex_20 ex_20) ''techno''
        (addTopTracks (ex_tracks ''top-'' ''a0'' ex_20) ex_start)))"
    by (simp add: ex_pool_40)
  show ?thesis
    using h1 h2 h3
      searchGenres_cap_and_failures [of ex_start ex_offline "[''house'']" "''techno''"
        RequestFailed]
      searchGenres_cap_and_failures [of "addTopTracks (ex_tracks ''top-'' ''a0'' ex_20) ex_start"
        "ex_network ex_20 ex_20" "[''house'']" "''techno''" RequestFailed]
    by blast
qed

section \<open>Properties of the ranked output\<close>

text \<open>
  C3: for every pool the ranker returns \<open>min 10 (pool size)\<close> items, sorted by mood score
  in non-decreasing order, and the sort is stable: the returned items of any one score are
  an initial part of the pool's items of that score, in collection order. The collection
  order is: the new top tracks in their order, then for each genre searched, in genre
  order, the new hits in the order of the search result.
\<close>

theorem ranker_sorted_stable:
  "length (topMatches artistMap seedGenres m cands) = min 10 (length cands)
   \<and> sorted (map moodScore (topMatches artistMap seedGenres m cands))
   \<and> prefix (filter (\<lambda>sc. moodScore sc = k) (topMatches artistMap seedGenres m cands))
        (filter (\<lambda>sc. moodScore sc = k) (map (scoreTrack artistMap seedGenres m) cands))
   \<and> (\<exists>new. candidateTracks (addTopTracks tops st) = candidateTracks st @ new \<and>
          subseq new tops)
   \<and> (\<exists>new. candidateTracks (searchGenre net g st) = candidateTracks st @ new \<and>
          subseq new
            (case searchTracks net (requests st) g of Inl e \<Rightarrow> [] | Inr found \<Rightarrow> found))
   \<and> prefix (candidateTracks (searchGenre net g st))
        (candidateTracks (searchGenres net (g # gs) st))"
  using top_length [of artistMap seedGenres m cands] top_sorted [of artistMap seedGenres m cands]
    top_stable [of k artistMap seedGenres m cands] addTopTracks_order [of tops st]
    searchGenre_order [of net g st] searchGenres_later [of net g st gs]
  by (intro conjI)

lemma ex_tie:
  "topMatches ex_artistMap [''techno''] ex_mood
     [ex_track ''t1'' ''a1'', ex_track ''t2'' ''a0'', ex_track ''t3'' ''a1''] =
   [scoreTrack ex_artistMap [''techno''] ex_mood (ex_track ''t2'' ''a0''),
    scoreTrack ex_artistMap [''techno''] ex_mood (ex_track ''t1'' ''a1''),
    scoreTrack ex_artistMap [''techno''] ex_mood (ex_track ''t3'' ''a1'')]"
proof -
  have g1: "\<And>i. genresFor ex_artistMap [''techno''] (ex_track i ''a1'') = []"
    by (simp add: genresFor_def primaryArtistId_def truthy_def ex_track_def ex_artistMap_def)
  have g0: "\<And>i. genresFor ex_artistMap [''techno''] (ex_track i ''a0'') = [''techno'']"
    by (simp add: genresFor_def primaryArtistId_def truthy_def ex_track_def ex_artistMap_def)
  have e0: "estimateFeaturesFromGenres (Some []) = DEFAULT_FEATURES"
    by (simp add: estimateFeaturesFromGenres_def)
  have s1: "\<And>i. moodScore (scoreTrack ex_artistMap [''techno''] ex_mood (ex_track i ''a1'')) = 0.3"
    by (simp add: scoreTrack_def Let_def g1 e0 calculateMoodScore_def DEFAULT_FEATURES_def
        ex_mood_def)
  have s0: "\<And>i. moodScore (scoreTrack ex_artistMap [''techno''] ex_mood (ex_track i ''a0'')) = 0.2"
    by (simp add: scoreTrack_def Let_def g0 estimate_techno calculateMoodScore_def ex_mood_def)
  show ?thesis
    by (simp add: topMatches_def tracksWithScores_def s0 s1)
qed

theorem ranker_sorted_stable_witness:
  "length (topMatches ex_artistMap [''techno''] ex_mood
     [ex_track ''t1'' ''a1'', ex_track ''t2'' ''a0'', ex_track ''t3'' ''a1'']) = 3
   \<and> sorted (map moodScore (topMatches ex_artistMap [''techno''] ex_mood
        [ex_track ''t1'' ''a1'', ex_track ''t2'' ''a0'', ex_track ''t3'' ''a1'']))
   \<and> map (\<lambda>sc. track_id (scored_track sc)) (topMatches ex_artistMap [''techno''] ex_mood
        [ex_track ''t1'' ''a1'', ex_track ''t2'' ''a0'', ex_track ''t3'' ''a1'']) =
      [''t2'', ''t1'', ''t3'']"
proof -
  have "map (\<lambda>sc. track_id (scored_track sc)) (topMatches ex_artistMap [''techno''] ex_mood
        [ex_track ''t1'' ''a1'', ex_track ''t2'' ''a0'', ex_track ''t3'' ''a1'']) =
      [''t2'', ''t1'', ''t3'']"
    by (simp add: ex_tie) (simp add: ex_track_def)
  then show ?thesis
    using ranker_sorted_stable [of ex_artistMap "[''techno'']" ex_mood
        "[ex_track ''t1'' ''a1'', ex_track ''t2'' ''a0'', ex_track ''t3'' ''a1'']"]
    by simp
qed

lemma top_ids_distinct:
  assumes "distinct (map track_id cands)"
  shows "distinct (map rec_id (map (toRecommendation m n) (topMatches am sg m cands)))"
proof -
  have "distinct (map (\<lambda>sc. track_id (scored_track sc)) (map (scoreTrack am sg m) cands))"
    using assms by (simp add: comp_def)
  then have "distinct (map (\<lambda>sc. track_id (scored_track sc)) (tracksWithScores am sg m cands))"
    unfolding tracksWithScores_def by (simp only: distinct_map distinct_sort set_sort)
  then have "distinct (take 10
      (map (\<lambda>sc. track_id (scored_track sc)) (tracksWithScores am sg m cands)))"
    by (rule distinct_take)
  then show ?thesis by (simp add: topMatches_def take_map comp_def)
qed

lemma top_ids_subset:
  "set (map rec_id (map (toRecommendation m n) (topMatches am sg m cands))) \<subseteq>
   set (map track_id cands)"
  using top_subset [of am sg m cands] by (auto simp add: comp_def)

lemma rankAndFormat_ids:
  assumes "pool_inv s st"
  shows "distinct (map rec_id (fst (rankAndFormat net seedSong m sg st))) \<and>
         s \<notin> set (map rec_id (fst (rankAndFormat net seedSong m sg st)))"
proof -
  obtain am where am: "fst (rankAndFormat net seedSong m sg st) =
     map (toRecommendation m (seedArtistNameOf seedSong)) (topMatches am sg m (candidateTracks st))"
    using rankAndFormat_top by blast
  have d: "distinct (map track_id (candidateTracks st))"
    and n: "s \<notin> set (map track_id (candidateTracks st))"
    using assms by (simp_all add: pool_inv_def)
  from d have "distinct (map rec_id (fst (rankAndFormat net seedSong m sg st)))"
    unfolding am by (rule top_ids_distinct)
  moreover have "s \<notin> set (map rec_id (fst (rankAndFormat net seedSong m sg st)))"
    unfolding am
    using n top_ids_subset [of m "seedArtistNameOf seedSong" am sg "candidateTracks st"]
    by blast
  ultimately show ?thesis by simp
qed

lemma collectCandidates_inv:
  "pool_inv (track_id seedSong) (collectCandidates net seedSong sg tops lg)"
proof -
  have "pool_inv (track_id seedSong)
      \<lparr>candidateTracks = [], seenTrackIds = {track_id seedSong}, requests = lg\<rparr>"
    by (simp add: pool_inv_def)
  then show ?thesis
    by (simp add: collectCandidates_def Let_def addTopTracks_inv searchGenres_inv)
qed

lemma liveSongs_cases:
  assumes "liveSongs net seedSong m aid = (Inr songs, lg)"
  shows "songs = generateMockSongs seedSong m \<or>
         (\<exists>sg st. pool_inv (track_id seedSong) st \<and> candidateTracks st \<noteq> [] \<and>
            songs = fst (rankAndFormat net seedSong m sg st))"
proof (cases "getArtist net [] aid")
  case (Inl e)
  with assms show ?thesis by (simp add: liveSongs_def Let_def)
next
  case (Inr ad)
  note a = this
  show ?thesis
  proof (cases "getTopTracks net [GetArtist aid] aid")
    case (Inl e)
    with a assms show ?thesis by (simp add: liveSongs_def Let_def)
  next
    case (Inr tops)
    note b = this
    show ?thesis
    proof (cases ad)
      case None
      with a b assms show ?thesis by (simp add: liveSongs_def Let_def)
    next
      case (Some sa)
      define sg where "sg = (case artist_genres sa of None \<Rightarrow> [] | Some gs \<Rightarrow> gs)"
      define st where
        "st = collectCandidates net seedSong sg tops [GetArtist aid, GetTopTracks aid]"
      have inv: "pool_inv (track_id seedSong) st"
        unfolding st_def by (rule collectCandidates_inv)
      show ?thesis
      proof (cases "candidateTracks st = []")
        case True
        with a b Some assms show ?thesis
          by (simp add: liveSongs_def Let_def sg_def st_def)
      next
        case False
        with a b Some assms have "songs = fst (rankAndFormat net seedSong m sg st)"
          by (auto simp add: liveSongs_def Let_def sg_def st_def split: prod.splits)
        with inv False show ?thesis by blast
      qed
    qed
  qed
qed

lemma generateSongs_thrown:
  assumes "truthy token" and "primaryArtistId seedSong = Some aid"
    and "fst (liveSongs net seedSong m aid) = Inl err"
  shows "fst (generateSongs net seedSong m token) = generateMockSongs seedSong m"
  using assms by (cases "liveSongs net seedSong m aid") (simp add: generateSongs_def)

lemma liveSongs_rejected:
  assumes "isl (getArtist net [] aid) \<or> isl (getTopTracks net [GetArtist aid] aid)"
  shows "isl (fst (liveSongs net seedSong m aid))"
  using assms by (auto simp add: liveSongs_def Let_def isl_def split: sum.splits option.splits)

lemma liveSongs_empty_pool:
  assumes "getArtist net [] aid = Inr (Some a)"
    and "getTopTracks net [GetArtist aid] aid = Inr tops"
    and "candidateTracks (collectCandidates net seedSong
           (case artist_genres a of None \<Rightarrow> [] | Some gs \<Rightarrow> gs) tops
           [GetArtist aid, GetTopTracks aid]) = []"
  shows "fst (liveSongs net seedSong m aid) = Inr (generateMockSongs seedSong m)"
  using assms by (simp add: liveSongs_def Let_def)

lemma generateSongs_cases:
  "fst (generateSongs net seedSong m token) = generateMockSongs seedSong m \<or>
   (\<exists>sg st. pool_inv (track_id seedSong) st \<and> candidateTracks st \<noteq> [] \<and>
      fst (generateSongs net seedSong m token) = fst (rankAndFormat net seedSong m sg st))"
proof (cases "truthy token")
  case False
  then show ?thesis by (simp add: generateSongs_def)
next
  case True
  show ?thesis
  proof (cases "primaryArtistId seedSong")
    case None
    with True show ?thesis by (simp add: generateSongs_def)
  next
    case (Some aid)
    obtain r lg where l: "liveSongs net seedSong m aid = (r, lg)"
      by (cases "liveSongs net seedSong m aid")
    show ?thesis
    proof (cases r)
      case (Inl e)
      with True Some l show ?thesis by (simp add: generateSongs_def)
    next
      case (Inr songs)
      with True Some l have "fst (generateSongs net seedSong m token) = songs"
        by (simp add: generateSongs_def)
      with liveSongs_cases [of net seedSong m aid songs lg] l Inr show ?thesis by simp
    qed
  qed
qed

lemma generateSongs_length: "length (fst (generateSongs net seedSong m token)) \<le> 10"
  using generateSongs_cases [of net seedSong m token]
  by (auto simp add: mock_length rankAndFormat_length)

lemma generateSongs_distinct: "distinct (map rec_id (fst (generateSongs net seedSong m token)))"
  using generateSongs_cases [of net seedSong m token] mock_distinct [of seedSong m]
  by (auto simp add: rankAndFormat_ids simp del: map_map)

lemma generateSongs_seed:
  assumes "track_id seedSong \<in> set (map rec_id (fst (generateSongs net seedSong m token)))"
  shows "fst (generateSongs net seedSong m token) = generateMockSongs seedSong m \<and>
         track_id seedSong \<in> set mockIds"
proof -
  from generateSongs_cases [of net seedSong m token]
  have mock: "fst (generateSongs net seedSong m token) = generateMockSongs seedSong m"
  proof
    assume "fst (generateSongs net seedSong m token) = generateMockSongs seedSong m"
    then show ?thesis .
  next
    assume "\<exists>sg st. pool_inv (track_id seedSong) st \<and> candidateTracks st \<noteq> [] \<and>
      fst (generateSongs net seedSong m token) = fst (rankAndFormat net seedSong m sg st)"
    then obtain sg st where "pool_inv (track_id seedSong) st"
      and e: "fst (generateSongs net seedSong m token) = fst (rankAndFormat net seedSong m sg st)"
      by blast
    then have "track_id seedSong \<notin> set (map rec_id (fst (generateSongs net seedSong m token)))"
      using rankAndFormat_ids [of "track_id seedSong" st net seedSong m sg] by simp
    with assms show ?thesis by simp
  qed
  with assms show ?thesis by (simp add: mock_ids del: map_map)
qed

subsection \<open>A small live run\<close>

lemma ex_small_getArtist [simp]:
  "getArtist (ex_small tops) lg i = Inr (Some \<lparr>artist_id = i, artist_genres = None\<rparr>)"
  by (simp add: ex_small_def)

lemma ex_small_getTopTracks [simp]: "getTopTracks (ex_small tops) lg i = Inr tops"
  by (simp add: ex_small_def)

lemma ex_small_getArtists [simp]: "getArtists (ex_small tops) lg ids = Inr (map ex_resolve ids)"
  by (simp add: ex_small_def)

lemma ex_seed_artist: "primaryArtistId ex_seed = Some ''a0''"
  by (simp add: primaryArtistId_def truthy_def ex_seed_def ex_track_def)

lemma ex_small_pool:
  "collectCandidates (ex_small [ex_seed, ex_track ''t1'' ''a1'']) ex_seed []
     [ex_seed, ex_track ''t1'' ''a1''] [GetArtist ''a0'', GetTopTracks ''a0''] =
   \<lparr>candidateTracks = [ex_track ''t1'' ''a1''], seenTrackIds = {''t1'', ''seed''},
    requests = [GetArtist ''a0'', GetTopTracks ''a0'']\<rparr>"
  by (simp add: collectCandidates_def addIfUnseen_def ex_seed_def ex_track_def)

lemma ex_small_empty_pool:
  "candidateTracks (collectCandidates (ex_small [ex_seed]) ex_seed [] [ex_seed]
     [GetArtist ''a0'', GetTopTracks ''a0'']) = []"
  by (simp add: collectCandidates_def addIfUnseen_def)

lemma ex_small_rank:
  "rankAndFormat (ex_small [ex_seed, ex_track ''t1'' ''a1'']) ex_seed ex_mood []
     \<lparr>candidateTracks = [ex_track ''t1'' ''a1''], seenTrackIds = {''t1'', ''seed''},
      requests = [GetArtist ''a0'', GetTopTracks ''a0'']\<rparr> =
   ([\<lparr>rec_id = ''t1'', title = ''t1'', artist = ''a1'', album = [], duration = ''3:05'',
      imageUrl = [],
      reason = ''80% energy match, 90% danceability match, 100% mood match (estimated from genres similar to a0)''\<rparr>],
    [GetArtist ''a0'', GetTopTracks ''a0'', GetArtists [''a1'']])"
proof -
  have ids: "collectArtistIds [ex_track ''t1'' ''a1''] [] = [''a1'']"
    by (simp add: primaryArtistId_def truthy_def ex_track_def)
  have b: "batchesOf [''a1''] = [[''a1'']]"
    by (simp add: batchesOf.simps)
  have f: "fetchBatches (ex_small [ex_seed, ex_track ''t1'' ''a1'']) [[''a1'']]
      (Map.empty, [GetArtist ''a0'', GetTopTracks ''a0'']) =
      ([''a1'' \<mapsto> \<lparr>artist_id = ''a1'', artist_genres = Some []\<rparr>],
       [GetArtist ''a0'', GetTopTracks ''a0'', GetArtists [''a1'']])"
    by (simp add: ex_resolve_def)
  have g: "genresFor [''a1'' \<mapsto> \<lparr>artist_id = ''a1'', artist_genres = Some []\<rparr>] []
      (ex_track ''t1'' ''a1'') = []"
    by (simp add: genresFor_def primaryArtistId_def truthy_def ex_track_def)
  have e: "estimateFeaturesFromGenres (Some []) = DEFAULT_FEATURES"
    by (simp add: estimateFeaturesFromGenres_def)
  have t: "topMatches [''a1'' \<mapsto> \<lparr>artist_id = ''a1'', artist_genres = Some []\<rparr>] [] ex_mood
      [ex_track ''t1'' ''a1''] =
      [\<lparr>scored_track = ex_track ''t1'' ''a1'', scored_features = DEFAULT_FEATURES,
        moodScore = calculateMoodScore DEFAULT_FEATURES ex_mood\<rparr>]"
    by (simp add: topMatches_def tracksWithScores_def scoreTrack_def Let_def g e)
  have p: "matchPercent (energy DEFAULT_FEATURES) (energy ex_mood) = 80"
    "matchPercent (danceability DEFAULT_FEATURES) (danceability ex_mood) = 90"
    "matchPercent (valence DEFAULT_FEATURES) (valence ex_mood) = 100"
    by (simp_all add: matchPercent_def js_round_def DEFAULT_FEATURES_def ex_mood_def)
  have r: "liveReason 80 90 100 ''a0'' =
      ''80% energy match, 90% danceability match, 100% mood match (estimated from genres similar to a0)''"
    by (simp add: liveReason_def show_int_def show_nat.simps digit_char_def)
  have d: "formatDuration (Some 185000) = ''3:05''"
    by (simp add: formatDuration_def show_nat.simps digit_char_def padStart2_def)
  have n: "seedArtistNameOf ex_seed = ''a0''"
    by (simp add: seedArtistNameOf_def ex_seed_def ex_track_def)
  have "toRecommendation ex_mood ''a0''
      \<lparr>scored_track = ex_track ''t1'' ''a1'', scored_features = DEFAULT_FEATURES,
        moodScore = calculateMoodScore DEFAULT_FEATURES ex_mood\<rparr> =
      \<lparr>rec_id = ''t1'', title = ''t1'', artist = ''a1'', album = [], duration = ''3:05'',
      imageUrl = [],
      reason = ''80% energy match, 90% danceability match, 100% mood match (estimated from genres similar to a0)''\<rparr>"
    by (simp add: toRecommendation_def Let_def p r) (simp add: ex_track_def d)
  then show ?thesis
    by (simp add: rankAndFormat_def Let_def ids b f t n
        del: collectArtistIds.simps fetchBatches.simps)
qed

lemma ex_small_run:
  "generateSongs (ex_small [ex_seed, ex_track ''t1'' ''a1'']) ex_seed ex_mood (Some ''token'') =
   ([\<lparr>rec_id = ''t1'', title = ''t1'', artist = ''a1'', album = [], duration = ''3:05'',
      imageUrl = [],
      reason = ''80% energy match, 90% danceability match, 100% mood match (estimated from genres similar to a0)''\<rparr>],
    [GetArtist ''a0'', GetTopTracks ''a0'', GetArtists [''a1'']])"
  by (simp add: generateSongs_def truthy_def ex_seed_artist liveSongs_def Let_def ex_small_pool
      ex_small_rank)

section \<open>Properties of the entry point\<close>

text \<open>
  C4 as the specification states it fails on the mock path: a seed song whose id is
  mock-1 is answered, without a token, with a list that holds the id mock-1.
\<close>

theorem mock_list_can_hold_seed_id:
  "track_id ex_mock_seed \<in>
     set (map rec_id (fst (generateSongs ex_offline ex_mock_seed ex_mood None)))"
proof -
  have "fst (generateSongs ex_offline ex_mock_seed ex_mood None) =
      generateMockSongs ex_mock_seed ex_mood"
    by (simp add: generateSongs_def truthy_def)
  then show ?thesis
    by (simp add: mock_ids mockIds_def ex_mock_seed_def ex_track_def del: map_map)
qed

text \<open>
  C4, amended: in every run no identifier repeats in the returned list; the seed's
  identifier is never in a list that the live path returns, and it is in the mock list
  only when it is one of the ten identifiers mock-1 to mock-10.
\<close>

theorem output_ids_distinct_seed_excluded:
  "distinct (map rec_id (fst (generateSongs net seedSong m token)))
   \<and> (fst (generateSongs net seedSong m token) \<noteq> generateMockSongs seedSong m \<longrightarrow>
        track_id seedSong \<notin> set (map rec_id (fst (generateSongs net seedSong m token))))
   \<and> (track_id seedSong \<notin> set mockIds \<longrightarrow>
        track_id seedSong \<notin> set (map rec_id (fst (generateSongs net seedSong m token))))"
  using generateSongs_distinct [of net seedSong m token]
    generateSongs_seed [of seedSong net m token]
  by blast

theorem output_ids_distinct_seed_excluded_witness:
  "fst (generateSongs (ex_small [ex_seed, ex_track ''t1'' ''a1'']) ex_seed ex_mood
     (Some ''token'')) \<noteq> generateMockSongs ex_seed ex_mood
   \<and> track_id ex_seed \<notin> set mockIds
   \<and> distinct (map rec_id (fst (generateSongs (ex_small [ex_seed, ex_track ''t1'' ''a1''])
        ex_seed ex_mood (Some ''token''))))
   \<and> track_id ex_seed \<notin> set (map rec_id (fst (generateSongs
        (ex_small [ex_seed, ex_track ''t1'' ''a1'']) ex_seed ex_mood (Some ''token''))))"
proof -
  have "length (fst (generateSongs (ex_small [ex_seed, ex_track ''t1'' ''a1'']) ex_seed ex_mood
     (Some ''token''))) \<noteq> length (generateMockSongs ex_seed ex_mood)"
    by (simp add: ex_small_run mock_length)
  then have h1: "fst (generateSongs (ex_small [ex_seed, ex_track ''t1'' ''a1'']) ex_seed ex_mood
     (Some ''token'')) \<noteq> generateMockSongs ex_seed ex_mood"
    by auto
  have h2: "track_id ex_seed \<notin> set mockIds"
    by (simp add: mockIds_def ex_seed_def ex_track_def)
  show ?thesis
    using h1 h2
      output_ids_distinct_seed_excluded [of "ex_small [ex_seed, ex_track ''t1'' ''a1'']"
        ex_seed ex_mood "Some ''token''"]
    by blast
qed

text \<open>
  C1: for every service, seed song, mood settings and token, \<open>generateSongs\<close> returns a
  list of at most ten recommendations; every error thrown inside its \<open>try\<close> block ends in
  the mock list. Without a token, or with a seed song that has no primary artist id, the
  result is the mock list and no request is sent; when one of the two first requests is
  rejected, or when no candidate is collected, the result is the mock list.
\<close>

theorem generateSongs_bounded_fallbacks:
  "length (fst (generateSongs net seedSong m token)) \<le> 10
   \<and> (\<not> truthy token \<longrightarrow>
        generateSongs net seedSong m token = (generateMockSongs seedSong m, []))
   \<and> (primaryArtistId seedSong = None \<longrightarrow>
        generateSongs net seedSong m token = (generateMockSongs seedSong m, []))
   \<and> (truthy token \<and> primaryArtistId seedSong = Some aid \<and>
        fst (liveSongs net seedSong m aid) = Inl err \<longrightarrow>
        fst (generateSongs net seedSong m token) = generateMockSongs seedSong m)
   \<and> (truthy token \<and> primaryArtistId seedSong = Some aid \<and>
        (isl (getArtist net [] aid) \<or> isl (getTopTracks net [GetArtist aid] aid)) \<longrightarrow>
        fst (generateSongs net seedSong m token) = generateMockSongs seedSong m)
   \<and> (truthy token \<and> primaryArtistId seedSong = Some aid \<and>
        getArtist net [] aid = Inr (Some a) \<and>
        getTopTracks net [GetArtist aid] aid = Inr tops \<and>
        candidateTracks (collectCandidates net seedSong
           (case artist_genres a of None \<Rightarrow> [] | Some gs \<Rightarrow> gs) tops
           [GetArtist aid, GetTopTracks aid]) = [] \<longrightarrow>
        fst (generateSongs net seedSong m token) = generateMockSongs seedSong m)"
proof (intro conjI impI)
  show "length (fst (generateSongs net seedSong m token)) \<le> 10"
    by (rule generateSongs_length)
  show "generateSongs net seedSong m token = (generateMockSongs seedSong m, [])"
    if "\<not> truthy token"
    using that by (simp add: generateSongs_def)
  show "generateSongs net seedSong m token = (generateMockSongs seedSong m, [])"
    if "primaryArtistId seedSong = None"
    using that by (simp add: generateSongs_def)
  show "fst (generateSongs net seedSong m token) = generateMockSongs seedSong m"
    if "truthy token \<and> primaryArtistId seedSong = Some aid \<and>
        fst (liveSongs net seedSong m aid) = Inl err"
    using that generateSongs_thrown by blast
  show "fst (generateSongs net seedSong m token) = generateMockSongs seedSong m"
    if h: "truthy token \<and> primaryArtistId seedSong = Some aid \<and>
        (isl (getArtist net [] aid) \<or> isl (getTopTracks net [GetArtist aid] aid))"
  proof -
    from h have "isl (fst (liveSongs net seedSong m aid))"
      by (intro liveSongs_rejected) simp
    then obtain e where "fst (liveSongs net seedSong m aid) = Inl e"
      by (auto simp add: isl_def)
    with h show ?thesis using generateSongs_thrown by blast
  qed
  show "fst (generateSongs net seedSong m token) = generateMockSongs seedSong m"
    if h: "truthy token \<and> primaryArtistId seedSong = Some aid \<and>
        getArtist net [] aid = Inr (Some a) \<and>
        getTopTracks net [GetArtist aid] aid = Inr tops \<and>
        candidateTracks (collectCandidates net seedSong
           (case artist_genres a of None \<Rightarrow> [] | Some gs \<Rightarrow> gs) tops
           [GetArtist aid, GetTopTracks aid]) = []"
  proof -
    from h have a: "getArtist net [] aid = Inr (Some a)"
      and b: "getTopTracks net [GetArtist aid] aid = Inr tops"
      and c: "candidateTracks (collectCandidates net seedSong
           (case artist_genres a of None \<Rightarrow> [] | Some gs \<Rightarrow> gs) tops
           [GetArtist aid, GetTopTracks aid]) = []"
      by blast+
    have "fst (liveSongs net seedSong m aid) = Inr (generateMockSongs seedSong m)"
      using a b c by (rule liveSongs_empty_pool)
    with h show ?thesis
      by (cases "liveSongs net seedSong m aid") (simp add: generateSongs_def)
  qed
qed

theorem generateSongs_bounded_fallbacks_witness:
  "\<not> truthy None
   \<and> generateSongs ex_offline ex_seed ex_mood None = (generateMockSongs ex_seed ex_mood, [])
   \<and> primaryArtistId ex_anonymous_seed = None
   \<and> generateSongs ex_offline ex_anonymous_seed ex_mood (Some ''token'') =
       (generateMockSongs ex_anonymous_seed ex_mood, [])
   \<and> truthy (Some ''token'') \<and> primaryArtistId ex_seed = Some ''a0''
   \<and> fst (liveSongs ex_offline ex_seed ex_mood ''a0'') = Inl RequestFailed
   \<and> isl (getArtist ex_offline [] ''a0'')
   \<and> fst (generateSongs ex_offline ex_seed ex_mood (Some ''token'')) =
       generateMockSongs ex_seed ex_mood
   \<and> candidateTracks (collectCandidates (ex_small [ex_seed]) ex_seed [] [ex_seed]
        [GetArtist ''a0'', GetTopTracks ''a0'']) = []
   \<and> fst (generateSongs (ex_small [ex_seed]) ex_seed ex_mood (Some ''token'')) =
       generateMockSongs ex_seed ex_mood
   \<and> length (fst (generateSongs (ex_small [ex_seed, ex_track ''t1'' ''a1'']) ex_seed ex_mood
        (Some ''token''))) \<le> 10"
proof -
  have h1: "\<not> truthy None"
    by (simp add: truthy_def)
  have h2: "primaryArtistId ex_anonymous_seed = None"
    by (simp add: primaryArtistId_def ex_anonymous_seed_def)
  have h3: "truthy (Some ''token'')"
    by (simp add: truthy_def)
  have h4: "fst (liveSongs ex_offline ex_seed ex_mood ''a0'') = Inl RequestFailed"
    by (simp add: liveSongs_def ex_offline_def Let_def)
  have h5: "isl (getArtist ex_offline [] ''a0'')"
    by (simp add: ex_offline_def)
  have h6: "getArtist (ex_small [ex_seed]) [] ''a0'' =
      Inr (Some \<lparr>artist_id = ''a0'', artist_genres = None\<rparr>)"
    by simp
  have h7: "getTopTracks (ex_small [ex_seed]) [GetArtist ''a0''] ''a0'' = Inr [ex_seed]"
    by simp
  have h8: "candidateTracks (collectCandidates (ex_small [ex_seed]) ex_seed
      (case artist_genres \<lparr>artist_id = ''a0'', artist_genres = None\<rparr> of
         None \<Rightarrow> [] | Some gs \<Rightarrow> gs) [ex_seed]
      [GetArtist ''a0'', GetTopTracks ''a0'']) = []"
    by (simp add: ex_small_empty_pool)
  note t1 = generateSongs_bounded_fallbacks [of ex_offline ex_seed ex_mood None]
  note t2 = generateSongs_bounded_fallbacks [of ex_offline ex_anonymous_seed ex_mood
      "Some ''token''"]
  note t3 = generateSongs_bounded_fallbacks [of ex_offline ex_seed ex_mood "Some ''token''"
      "''a0''" RequestFailed]
  note t4 = generateSongs_bounded_fallbacks [of "ex_small [ex_seed]" ex_seed ex_mood
      "Some ''token''" "''a0''" RequestFailed "\<lparr>artist_id = ''a0'', artist_genres = None\<rparr>"
      "[ex_seed]"]
  note t5 = generateSongs_bounded_fallbacks [of "ex_small [ex_seed, ex_track ''t1'' ''a1'']"
      ex_seed ex_mood "Some ''token''"]
  from t1 h1 have c1:
    "generateSongs ex_offline ex_seed ex_mood None = (generateMockSongs ex_seed ex_mood, [])"
    by blast
  from t2 h2 have c2: "generateSongs ex_offline ex_anonymous_seed ex_mood (Some ''token'') =
       (generateMockSongs ex_anonymous_seed ex_mood, [])"
    by blast
  from t3 h3 h4 ex_seed_artist have c3:
    "fst (generateSongs ex_offline ex_seed ex_mood (Some ''token'')) =
       generateMockSongs ex_seed ex_mood"
    by blast
  from t4 h3 h6 h7 h8 ex_seed_artist have c4:
    "fst (generateSongs (ex_small [ex_seed]) ex_seed ex_mood (Some ''token'')) =
       generateMockSongs ex_seed ex_mood"
    by blast
  from t5 have c5:
    "length (fst (generateSongs (ex_small [ex_seed, ex_track ''t1'' ''a1'']) ex_seed ex_mood
        (Some ''token''))) \<le> 10"
    by blast
  show ?thesis
    using h1 h2 h3 h4 h5 ex_seed_artist ex_small_empty_pool c1 c2 c3 c4 c5
    by (intro conjI)
qed

end
